theory Spec2Isabelle
  imports Main "HOL-Library.Sublist"
begin

section \<open>Python values, exceptions and the process state\<close>

text \<open>
  The program under study is \<^verbatim>\<open>scripts/build.py\<close>, a command-line front end that
  reads a JSON settings file and drives \<^verbatim>\<open>cmake\<close> through \<^verbatim>\<open>subprocess\<close>.
  Everything it does is an effect on the process (working directory, file system,
  standard output, child processes), so the embedding passes an explicit process state
  and returns every raised exception as a value.
\<close>

text \<open>What \<^verbatim>\<open>json.load\<close> can return.\<close>

datatype json =
    JNull
  | JBool bool
  | JInt int
  | JFloat string
  | JString string
  | JArray "json list"
  | JObject "(string \<times> json) list"

text \<open>
  The exceptions of the program. \<open>RuntimeError\<close> and \<open>FileNotFoundError\<close> are raised by
  the source with the message they carry. The others are raised by the interpreter or its
  library: \<open>KeyError\<close> carries the missing key, \<open>TypeError\<close> and \<open>AttributeError\<close> the
  name of the operation that failed, \<open>OSError\<close> the path of the failing system call (it
  stands for every subclass the operating system raises), \<open>CalledProcessError\<close> the exit
  code, the command and the captured standard error.
\<close>

datatype exn =
    RuntimeError string
  | FileNotFoundError string
  | KeyError string
  | TypeError string
  | AttributeError string
  | OSError string
  | JSONDecodeError
  | CalledProcessError int "string list" "string option"

datatype node = Dir | File string

text \<open>
  The file system maps absolute paths (lists of names below the root) to nodes. There
  are no symbolic links and no permissions in the model.
\<close>

record proc =
  cwd :: "string list"
  environ :: "string \<rightharpoonup> string"
  fs :: "string list \<rightharpoonup> node"
  stdout :: "string list"
  spawned :: "string list list"
  debug_enabled :: bool

text \<open>
  \<open>stdout\<close> holds the lines this process writes with \<^verbatim>\<open>print\<close>; \<open>spawned\<close> is the
  list of argument vectors handed to the operating system for execution, oldest first;
  \<open>debug_enabled\<close> is the class attribute \<^verbatim>\<open>Debug.enabled\<close>.
\<close>

datatype child_outcome =
    ExecFailed exn
  | Exited int string "string list \<rightharpoonup> node"

text \<open>
  What the interpreter and the machine provide and the source only calls: the JSON
  reader and writer, the behaviour of a child process (given its argument vector, the
  working directory, the environment and the file system it starts in, it either cannot
  be executed, or exits with a code, its standard error and the file system it leaves),
  the formatting of values inside f-strings, and the message of a library exception.
\<close>

record platform =
  json_load :: "string \<Rightarrow> json option"
  json_dump :: "json \<Rightarrow> string"
  child :: "string list \<Rightarrow> string list \<Rightarrow> (string \<rightharpoonup> string) \<Rightarrow> (string list \<rightharpoonup> node) \<Rightarrow> child_outcome"
  str_list :: "string list \<Rightarrow> string"
  str_int :: "int \<Rightarrow> string"
  str_bytes :: "string option \<Rightarrow> string"
  lib_message :: "exn \<Rightarrow> string"

definition MY_NAME :: string where
  "MY_NAME = ''C Project Builder''"

definition quote :: char where
  "quote = CHR 0x27"

definition str_bool :: "bool \<Rightarrow> string" where
  "str_bool b = (if b then ''True'' else ''False'')"

text \<open>\<^verbatim>\<open>str(e)\<close> for an exception.\<close>

fun str_exn :: "platform \<Rightarrow> exn \<Rightarrow> string" where
  "str_exn p (RuntimeError m) = m"
| "str_exn p (FileNotFoundError m) = m"
| "str_exn p e = lib_message p e"

definition print :: "string \<Rightarrow> proc \<Rightarrow> proc" where
  "print line w = w\<lparr>stdout := stdout w @ [line]\<rparr>"

subsection \<open>Strings and paths (\<^verbatim>\<open>str.split\<close>, \<^verbatim>\<open>posixpath\<close>)\<close>

text \<open>\<^verbatim>\<open>s.split(sep)\<close> for a separator of one character.\<close>

fun split_on :: "char \<Rightarrow> string \<Rightarrow> string list" where
  "split_on sep [] = [[]]"
| "split_on sep (x # xs) =
     (if x = sep then [] # split_on sep xs
      else (case split_on sep xs of
              [] \<Rightarrow> [[x]]
            | y # ys \<Rightarrow> (x # y) # ys))"

definition os_path_join :: "string \<Rightarrow> string \<Rightarrow> string" where
  "os_path_join a b =
     (if b \<noteq> [] \<and> hd b = CHR ''/'' then b
      else if a = [] \<or> last a = CHR ''/'' then a @ b
      else a @ ''/'' @ b)"

definition rstrip_slash :: "string \<Rightarrow> string" where
  "rstrip_slash s = rev (dropWhile (\<lambda>c. c = CHR ''/'') (rev s))"

definition os_path_dirname :: "string \<Rightarrow> string" where
  "os_path_dirname p =
     (let head = rev (dropWhile (\<lambda>c. c \<noteq> CHR ''/'') (rev p))
      in if head \<noteq> [] \<and> head \<noteq> replicate (length head) (CHR ''/'')
         then rstrip_slash head else head)"

subsection \<open>The file system calls\<close>

definition components :: "string \<Rightarrow> string list" where
  "components s = filter (\<lambda>c. c \<noteq> []) (split_on (CHR ''/'') s)"

text \<open>
  Path resolution walks the names one at a time; a name can only be looked up in an
  existing directory. The last name itself need not exist.
\<close>

fun walk :: "(string list \<rightharpoonup> node) \<Rightarrow> string list \<Rightarrow> string list \<Rightarrow> string list option" where
  "walk t cur [] = Some cur"
| "walk t cur (c # cs) =
     (if t cur \<noteq> Some Dir then None
      else if c = ''.'' then walk t cur cs
      else if c = ''..'' then walk t (butlast cur) cs
      else walk t (cur @ [c]) cs)"

definition start_dir :: "proc \<Rightarrow> string \<Rightarrow> string list" where
  "start_dir w s = (if s \<noteq> [] \<and> hd s = CHR ''/'' then [] else cwd w)"

definition resolve :: "proc \<Rightarrow> string \<Rightarrow> string list option" where
  "resolve w s = (if s = [] then None else walk (fs w) (start_dir w s) (components s))"

text \<open>\<^verbatim>\<open>os.stat\<close>: the absolute path and the node, or nothing.\<close>

definition os_stat :: "proc \<Rightarrow> string \<Rightarrow> (string list \<times> node) option" where
  "os_stat w s =
     (case resolve w s of
        None \<Rightarrow> None
      | Some q \<Rightarrow>
          (case fs w q of
             None \<Rightarrow> None
           | Some n \<Rightarrow> if last s = CHR ''/'' \<and> n \<noteq> Dir then None else Some (q, n)))"

definition os_path_exists :: "proc \<Rightarrow> string \<Rightarrow> bool" where
  "os_path_exists w s = (os_stat w s \<noteq> None)"

definition os_path_isdir :: "proc \<Rightarrow> string \<Rightarrow> bool" where
  "os_path_isdir w s = (case os_stat w s of Some (q, Dir) \<Rightarrow> True | _ \<Rightarrow> False)"

definition os_getenv :: "proc \<Rightarrow> string \<Rightarrow> string option" where
  "os_getenv w k = environ w k"

definition os_chdir :: "string \<Rightarrow> proc \<Rightarrow> (exn + unit) \<times> proc" where
  "os_chdir s w =
     (case os_stat w s of
        Some (q, Dir) \<Rightarrow> (Inr (), w\<lparr>cwd := q\<rparr>)
      | _ \<Rightarrow> (Inl (OSError s), w))"

text \<open>
  \<^verbatim>\<open>shutil.rmtree\<close> removes the directory and everything below it. The root cannot be
  removed: its contents go and the final \<^verbatim>\<open>rmdir\<close> fails.
\<close>

definition shutil_rmtree :: "string \<Rightarrow> proc \<Rightarrow> (exn + unit) \<times> proc" where
  "shutil_rmtree s w =
     (case os_stat w s of
        Some (q, Dir) \<Rightarrow>
          if q = [] then (Inl (OSError s), w\<lparr>fs := (\<lambda>x. if x = [] then fs w x else None)\<rparr>)
          else (Inr (), w\<lparr>fs := (\<lambda>x. if prefix q x then None else fs w x)\<rparr>)
      | _ \<Rightarrow> (Inl (OSError s), w))"

definition os_mkdir :: "string \<Rightarrow> proc \<Rightarrow> (exn + unit) \<times> proc" where
  "os_mkdir s w =
     (case resolve w s of
        None \<Rightarrow> (Inl (OSError s), w)
      | Some q \<Rightarrow>
          if fs w q \<noteq> None \<or> q = [] \<or> fs w (butlast q) \<noteq> Some Dir then (Inl (OSError s), w)
          else (Inr (), w\<lparr>fs := (fs w)(q \<mapsto> Dir)\<rparr>))"

text \<open>\<^verbatim>\<open>open(path, mode="w")\<close>, one write of the whole text, and the close.\<close>

definition write_text :: "string \<Rightarrow> string \<Rightarrow> proc \<Rightarrow> (exn + unit) \<times> proc" where
  "write_text s txt w =
     (case resolve w s of
        None \<Rightarrow> (Inl (OSError s), w)
      | Some q \<Rightarrow>
          if last s = CHR ''/'' \<or> fs w q = Some Dir then (Inl (OSError s), w)
          else if fs w q = None \<and> (q = [] \<or> fs w (butlast q) \<noteq> Some Dir) then (Inl (OSError s), w)
          else (Inr (), w\<lparr>fs := (fs w)(q \<mapsto> File txt)\<rparr>))"

text \<open>\<^verbatim>\<open>open(path)\<close> and the read of the whole text.\<close>

definition read_text :: "string \<Rightarrow> proc \<Rightarrow> exn + string" where
  "read_text s w =
     (case os_stat w s of
        Some (q, File txt) \<Rightarrow> Inr txt
      | _ \<Rightarrow> Inl (OSError s))"

section \<open>The program\<close>

subsection \<open>class Debug\<close>

definition Debug_Print :: "string \<Rightarrow> proc \<Rightarrow> proc" where
  "Debug_Print message w = (if debug_enabled w then print (''[DEBUG]'' @ message) w else w)"

text \<open>What one call of \<^verbatim>\<open>Debug.Print\<close> adds to the output.\<close>

definition debug_text :: "bool \<Rightarrow> string \<Rightarrow> string list" where
  "debug_text enabled message = (if enabled then [''[DEBUG]'' @ message] else [])"

subsection \<open>class SubProcessWrapper\<close>

text \<open>
  \<^verbatim>\<open>subprocess.Popen\<close> on POSIX: with \<^verbatim>\<open>shell=True\<close> the argument vector that is
  executed is \<^verbatim>\<open>["/bin/sh", "-c"] + args\<close>.
\<close>

definition popen_argv :: "bool \<Rightarrow> string list \<Rightarrow> string list" where
  "popen_argv shell args = (if shell then [''/bin/sh'', ''-c''] @ args else args)"

text \<open>
  \<^verbatim>\<open>sh -c\<close> takes the operand after \<^verbatim>\<open>-c\<close> as the command text it interprets; the
  operands after it become the positional parameters \<^verbatim>\<open>$0, $1, ...\<close> of the shell.
\<close>

definition sh_command_text :: "string list \<Rightarrow> string option" where
  "sh_command_text argv = (case drop 2 argv of [] \<Rightarrow> None | c # ps \<Rightarrow> Some c)"

definition sh_positional :: "string list \<Rightarrow> string list" where
  "sh_positional argv = drop 3 argv"

text \<open>
  \<^verbatim>\<open>subprocess.run(args, shell=..., check=..., capture_output=...)\<close>; the result is
  the return code of the completed process.
\<close>

definition subprocess_run ::
  "platform \<Rightarrow> string list \<Rightarrow> bool \<Rightarrow> bool \<Rightarrow> bool \<Rightarrow> proc \<Rightarrow> (exn + int) \<times> proc" where
  "subprocess_run p args shell check capture_output w =
     (let argv = popen_argv shell args;
          w1 = w\<lparr>spawned := spawned w @ [argv]\<rparr>
      in case child p argv (cwd w) (environ w) (fs w) of
           ExecFailed e \<Rightarrow> (Inl e, w1)
         | Exited rc err t \<Rightarrow>
             if check \<and> rc \<noteq> 0
             then (Inl (CalledProcessError rc args (if capture_output then Some err else None)),
                   w1\<lparr>fs := t\<rparr>)
             else (Inr rc, w1\<lparr>fs := t\<rparr>))"

definition SubProcessWrapper_Run :: "platform \<Rightarrow> string list \<Rightarrow> proc \<Rightarrow> (exn + int) \<times> proc" where
  "SubProcessWrapper_Run p args w = subprocess_run p args False True False w"

definition SubProcessWrapper_RunSimply ::
  "platform \<Rightarrow> string list \<Rightarrow> proc \<Rightarrow> (exn + int) \<times> proc" where
  "SubProcessWrapper_RunSimply p args w =
     (case subprocess_run p args False True False w of
        (Inr rc, w1) \<Rightarrow> (Inr rc, w1)
      | (Inl e, w1) \<Rightarrow>
          (case e of
             CalledProcessError rc cmd err \<Rightarrow> (Inr rc, w1)
           | _ \<Rightarrow> (Inl e, w1)))"

definition SubProcessWrapper_RunWithoutOutput ::
  "platform \<Rightarrow> string list \<Rightarrow> proc \<Rightarrow> (exn + int) \<times> proc" where
  "SubProcessWrapper_RunWithoutOutput p args w =
     (let w0 = Debug_Print (''run command: '' @ str_list p args) w
      in case subprocess_run p args True True True w0 of
           (Inr rc, w1) \<Rightarrow> (Inr rc, w1)
         | (Inl e, w1) \<Rightarrow>
             (case e of
                CalledProcessError rc cmd err \<Rightarrow>
                  (Inr rc, Debug_Print (''error '' @ str_int p rc @ '': '' @ str_bytes p err) w1)
              | _ \<Rightarrow> (Inl e, w1)))"

subsection \<open>class Cmake\<close>

record Cmake =
  cmake_projectHome :: string
  cmake_buildDirectory :: string

definition CMAKE :: string where
  "CMAKE = ''cmake''"

definition Cmake_init :: "string \<Rightarrow> string \<Rightarrow> proc \<Rightarrow> exn + Cmake" where
  "Cmake_init projectHome buildDirectory w =
     (if \<not> os_path_exists w projectHome
      then Inl (FileNotFoundError
                  (''ProjectHome does not exist. '' @ [quote] @ projectHome @ [quote]))
      else if \<not> os_path_exists w (os_path_dirname buildDirectory)
      then Inl (FileNotFoundError
                  (''BuildDirectory does not exist. '' @ [quote] @ buildDirectory @ [quote]))
      else Inr \<lparr>cmake_projectHome = projectHome, cmake_buildDirectory = buildDirectory\<rparr>)"

definition Cmake_Enter :: "Cmake \<Rightarrow> proc \<Rightarrow> (exn + unit) \<times> proc" where
  "Cmake_Enter self w = os_chdir (cmake_projectHome self) w"

definition Cmake_Exit :: "Cmake \<Rightarrow> proc \<Rightarrow> (exn + unit) \<times> proc" where
  "Cmake_Exit self w =
     (case os_getenv w ''OLDPWD'' of
        None \<Rightarrow> (Inl (TypeError ''chdir''), w)
      | Some d \<Rightarrow> os_chdir d w)"

definition configure_command :: "Cmake \<Rightarrow> string list" where
  "configure_command self =
     [CMAKE, ''-S'', cmake_projectHome self, ''-B'', cmake_buildDirectory self]"

definition Cmake_Configure :: "platform \<Rightarrow> Cmake \<Rightarrow> proc \<Rightarrow> (exn + bool) \<times> proc" where
  "Cmake_Configure p self w =
     (let command = configure_command self;
          w0 = Debug_Print (''command: '' @ str_list p command) w
      in case Cmake_Enter self w0 of
           (Inl e, w1) \<Rightarrow> (Inl e, w1)
         | (Inr u, w1) \<Rightarrow>
             (case SubProcessWrapper_RunSimply p command w1 of
                (Inl e, w2) \<Rightarrow> (Inl e, w2)
              | (Inr rc, w2) \<Rightarrow>
                  if rc = 0 then (Inr True, w2)
                  else (case Cmake_Exit self w2 of
                          (Inl e, w3) \<Rightarrow> (Inl e, w3)
                        | (Inr u, w3) \<Rightarrow> (Inr False, w3))))"

definition build_command ::
  "Cmake \<Rightarrow> string \<Rightarrow> string option \<Rightarrow> bool \<Rightarrow> string list option \<Rightarrow> string list" where
  "build_command self target buildType enableVerbose cmakeArgs =
     [CMAKE, ''--build'', cmake_buildDirectory self, ''--target'', target]
     @ (case buildType of
          None \<Rightarrow> []
        | Some t \<Rightarrow> if t \<noteq> [] then [''--config'', t] else [])
     @ (if enableVerbose then [''-v''] else [])
     @ (case cmakeArgs of
          None \<Rightarrow> []
        | Some xs \<Rightarrow> if xs \<noteq> [] \<and> xs \<noteq> [[]] then xs else [])"

definition Cmake_Build ::
  "platform \<Rightarrow> Cmake \<Rightarrow> string \<Rightarrow> string option \<Rightarrow> bool \<Rightarrow> string list option \<Rightarrow> proc
     \<Rightarrow> (exn + bool) \<times> proc" where
  "Cmake_Build p self target buildType enableVerbose cmakeArgs w =
     (let command = build_command self target buildType enableVerbose cmakeArgs;
          w0 = Debug_Print (''command: '' @ str_list p command) w
      in case Cmake_Enter self w0 of
           (Inl e, w1) \<Rightarrow> (Inl e, w1)
         | (Inr u, w1) \<Rightarrow>
             (case SubProcessWrapper_RunSimply p command w1 of
                (Inl e, w2) \<Rightarrow> (Inl e, w2)
              | (Inr rc, w2) \<Rightarrow>
                  if rc = 0
                  then (case Cmake_Exit self w2 of
                          (Inl e, w3) \<Rightarrow> (Inl e, w3)
                        | (Inr u, w3) \<Rightarrow> (Inr True, w3))
                  else (case Cmake_Exit self w2 of
                          (Inl e, w3) \<Rightarrow> (Inl e, w3)
                        | (Inr u, w3) \<Rightarrow> (Inr False, w3))))"

definition Cmake_Cleanup :: "Cmake \<Rightarrow> proc \<Rightarrow> (exn + unit) \<times> proc" where
  "Cmake_Cleanup self w =
     (case shutil_rmtree (cmake_buildDirectory self) w of
        (Inl e, w1) \<Rightarrow> (Inl e, w1)
      | (Inr u, w1) \<Rightarrow> os_mkdir (cmake_buildDirectory self) w1)"

subsection \<open>class BuildSetting\<close>

definition FILE_NAME :: string where
  "FILE_NAME = ''buildsettings.json''"

definition BUILD_DIR :: string where
  "BUILD_DIR = ''BuildDirectory''"

definition PROJECT_HOME :: string where
  "PROJECT_HOME = ''ProjectHome''"

text \<open>
  The two fields are annotated \<^verbatim>\<open>str\<close> in the source, but \<^verbatim>\<open>Load\<close> stores whatever
  the JSON document holds under the key. The attributes \<^verbatim>\<open>values\<close> and \<^verbatim>\<open>__path\<close> of
  the class are the fields \<open>setting_values\<close> and \<open>setting_path\<close>.
\<close>

record Values =
  buildDirectory :: json
  projectHome :: json

record BuildSetting =
  setting_values :: Values
  setting_path :: string

definition Values_init :: Values where
  "Values_init = \<lparr>buildDirectory = JString [], projectHome = JString []\<rparr>"

definition BuildSetting_init :: "string \<Rightarrow> BuildSetting" where
  "BuildSetting_init directory =
     \<lparr>setting_values = Values_init, setting_path = os_path_join directory FILE_NAME\<rparr>"

definition TEMPLATE :: json where
  "TEMPLATE = JObject [(PROJECT_HOME, JString ''.''), (BUILD_DIR, JString ''build'')]"

text \<open>
  \<^verbatim>\<open>jsonObject[key]\<close> with a string key. A JSON object is the list of its items (its
  keys are distinct); any other JSON value cannot be subscripted with a string.
\<close>

fun getitem :: "json \<Rightarrow> string \<Rightarrow> exn + json" where
  "getitem (JObject kvs) k = (case map_of kvs k of None \<Rightarrow> Inl (KeyError k) | Some v \<Rightarrow> Inr v)"
| "getitem j k = Inl (TypeError ''subscript'')"

definition BuildSetting_import :: "platform \<Rightarrow> BuildSetting \<Rightarrow> proc \<Rightarrow> exn + json" where
  "BuildSetting_import p self w =
     (case read_text (setting_path self) w of
        Inl e \<Rightarrow> Inl e
      | Inr txt \<Rightarrow> (case json_load p txt of None \<Rightarrow> Inl JSONDecodeError | Some j \<Rightarrow> Inr j))"

definition BuildSetting_Load ::
  "platform \<Rightarrow> BuildSetting \<Rightarrow> proc \<Rightarrow> (exn + unit) \<times> BuildSetting" where
  "BuildSetting_Load p self w =
     (if \<not> os_path_exists w (setting_path self)
      then (Inl (RuntimeError (FILE_NAME @ '' does not exist.'')), self)
      else case BuildSetting_import p self w of
             Inl e \<Rightarrow> (Inl e, self)
           | Inr jsonObject \<Rightarrow>
               (case getitem jsonObject PROJECT_HOME of
                  Inl e \<Rightarrow> (Inl e, self)
                | Inr v1 \<Rightarrow>
                    (let self1 = self\<lparr>setting_values := (setting_values self)\<lparr>projectHome := v1\<rparr>\<rparr>
                     in case getitem jsonObject BUILD_DIR of
                          Inl e \<Rightarrow> (Inl e, self1)
                        | Inr v2 \<Rightarrow>
                            (Inr (),
                             self1\<lparr>setting_values :=
                                      (setting_values self1)\<lparr>buildDirectory := v2\<rparr>\<rparr>))))"

definition BuildSetting_Create :: "platform \<Rightarrow> BuildSetting \<Rightarrow> proc \<Rightarrow> (exn + unit) \<times> proc" where
  "BuildSetting_Create p self w =
     (if os_path_exists w (setting_path self) then (Inr (), w)
      else write_text (setting_path self) (json_dump p TEMPLATE) w)"

subsection \<open>class ProjectBuilder\<close>

text \<open>The namespace \<^verbatim>\<open>argparse\<close> returns for the options the program defines.\<close>

record Namespace =
  arg_target :: string
  arg_configure :: bool
  arg_build :: bool
  arg_verbose :: bool
  arg_type :: string
  arg_clean :: bool
  arg_cmake_args :: string
  arg_create_settings :: bool
  arg_debug :: bool

record Controls =
  doConfiguration :: bool
  doBuild :: bool
  doCleanup :: bool
  createSetting :: bool
  isDebug :: bool

record ProjectBuilder =
  controls :: Controls
  response :: string
  arguments :: "Namespace option"
  setting :: BuildSetting

definition Controls_init :: Controls where
  "Controls_init =
     \<lparr>doConfiguration = True, doBuild = True, doCleanup = False, createSetting = False,
      isDebug = False\<rparr>"

text \<open>The argument is \<^verbatim>\<open>__file__\<close>, the path the script was started from.\<close>

definition ProjectBuilder_init :: "string \<Rightarrow> ProjectBuilder" where
  "ProjectBuilder_init file =
     \<lparr>controls = Controls_init, response = [], arguments = None,
      setting = BuildSetting_init (os_path_dirname file)\<rparr>"

definition ProjectBuilder_PrintArgument :: "Namespace \<Rightarrow> proc \<Rightarrow> proc" where
  "ProjectBuilder_PrintArgument a w =
     fold Debug_Print
       [''target: '' @ arg_target a,
        ''options:'',
        ''  configure: '' @ str_bool (arg_configure a),
        ''  build: '' @ str_bool (arg_build a),
        ''  verbose: '' @ str_bool (arg_verbose a),
        ''  type: '' @ arg_type a,
        ''  clean: '' @ str_bool (arg_clean a),
        ''  cmake-args: '' @ arg_cmake_args a,
        ''  create-settings: '' @ str_bool (arg_create_settings a),
        ''  debug: '' @ str_bool (arg_debug a)]
       w"

definition ProjectBuilder_verifyControls :: "ProjectBuilder \<Rightarrow> ProjectBuilder" where
  "ProjectBuilder_verifyControls self =
     (if \<not> doConfiguration (controls self) \<and> \<not> doBuild (controls self)
      then self\<lparr>controls := (controls self)\<lparr>doConfiguration := True, doBuild := True\<rparr>\<rparr>
      else self)"

text \<open>The first argument is what \<^verbatim>\<open>GetArguments\<close> (\<^verbatim>\<open>parse_args\<close>) returned.\<close>

definition ProjectBuilder_Setup ::
  "Namespace \<Rightarrow> ProjectBuilder \<Rightarrow> proc \<Rightarrow> ProjectBuilder \<times> proc" where
  "ProjectBuilder_Setup a self w =
     (let c = (controls self)
                \<lparr>isDebug := arg_debug a, doCleanup := arg_clean a,
                 doConfiguration := arg_configure a, doBuild := arg_build a,
                 createSetting := arg_create_settings a\<rparr>;
          self1 = self\<lparr>arguments := Some a, controls := c\<rparr>;
          w1 = w\<lparr>debug_enabled := isDebug c\<rparr>;
          w2 = ProjectBuilder_PrintArgument a w1
      in (ProjectBuilder_verifyControls self1, w2))"

text \<open>\<^verbatim>\<open>isinstance(v, str)\<close>: \<^verbatim>\<open>os.path.join\<close> raises \<open>TypeError\<close> on anything else.\<close>

fun as_str :: "json \<Rightarrow> string option" where
  "as_str (JString s) = Some s"
| "as_str j = None"

definition created_response :: string where
  "created_response = ''Successfully created '' @ [quote] @ FILE_NAME @ [quote]"

definition cleaned_response :: string where
  "cleaned_response = ''Cleaned up project repository.''"

text \<open>The configure and build steps of \<^verbatim>\<open>Run\<close>, after the object \<open>cmake\<close> is built.\<close>

definition configure_and_build ::
  "platform \<Rightarrow> ProjectBuilder \<Rightarrow> Cmake \<Rightarrow> proc \<Rightarrow> (exn + unit) \<times> ProjectBuilder \<times> proc" where
  "configure_and_build p self cmake w =
     (case (if doConfiguration (controls self) then Cmake_Configure p cmake w
            else (Inr True, w)) of
        (Inl e, w1) \<Rightarrow> (Inl e, self, w1)
      | (Inr ok, w1) \<Rightarrow>
          if \<not> ok then (Inr (), self, w1)
          else if doBuild (controls self)
          then (case arguments self of
                  None \<Rightarrow> (Inl (AttributeError ''arguments''), self, w1)
                | Some a \<Rightarrow>
                    (case Cmake_Build p cmake (arg_target a) (Some (arg_type a)) (arg_verbose a)
                            (Some (split_on (CHR '','') (arg_cmake_args a))) w1 of
                       (Inl e, w2) \<Rightarrow> (Inl e, self, w2)
                     | (Inr built, w2) \<Rightarrow> (Inr (), self, w2)))
          else (Inr (), self, w1))"

text \<open>
  The first statements of \<^verbatim>\<open>Run\<close> after the create-settings branch: load the settings
  and construct the \<^verbatim>\<open>Cmake\<close> object from them. Nothing here changes the process; the
  second component is the builder with the settings as \<^verbatim>\<open>Load\<close> left them.
\<close>

definition load_and_construct ::
  "platform \<Rightarrow> ProjectBuilder \<Rightarrow> proc \<Rightarrow> (exn + Cmake) \<times> ProjectBuilder" where
  "load_and_construct p self w =
     (case BuildSetting_Load p (setting self) w of
        (Inl e, st) \<Rightarrow> (Inl e, self\<lparr>setting := st\<rparr>)
      | (Inr u, st) \<Rightarrow>
          (case as_str (projectHome (setting_values st)) of
             None \<Rightarrow> (Inl (TypeError ''join''), self\<lparr>setting := st\<rparr>)
           | Some home \<Rightarrow>
               (case as_str (buildDirectory (setting_values st)) of
                  None \<Rightarrow> (Inl (TypeError ''join''), self\<lparr>setting := st\<rparr>)
                | Some dir \<Rightarrow>
                    (case Cmake_init home (os_path_join home dir) w of
                       Inl e \<Rightarrow> (Inl e, self\<lparr>setting := st\<rparr>)
                     | Inr cmake \<Rightarrow> (Inr cmake, self\<lparr>setting := st\<rparr>)))))"

definition ProjectBuilder_Run ::
  "platform \<Rightarrow> ProjectBuilder \<Rightarrow> proc \<Rightarrow> (exn + unit) \<times> ProjectBuilder \<times> proc" where
  "ProjectBuilder_Run p self w =
     (if createSetting (controls self)
      then (case BuildSetting_Create p (setting self) w of
              (Inl e, w1) \<Rightarrow> (Inl e, self, w1)
            | (Inr u, w1) \<Rightarrow> (Inr (), self\<lparr>response := created_response\<rparr>, w1))
      else case load_and_construct p self w of
             (Inl e, self1) \<Rightarrow> (Inl e, self1, w)
           | (Inr cmake, self1) \<Rightarrow>
               if doCleanup (controls self1)
               then (case Cmake_Cleanup cmake w of
                       (Inl e, w1) \<Rightarrow> (Inl e, self1, w1)
                     | (Inr u, w1) \<Rightarrow> (Inr (), self1\<lparr>response := cleaned_response\<rparr>, w1))
               else configure_and_build p self1 cmake w)"

subsection \<open>main\<close>

text \<open>
  The arguments are \<^verbatim>\<open>__file__\<close> and the parsed command line; the result is the
  process state when \<^verbatim>\<open>main\<close> returns. Every exception of the model is an
  \<^verbatim>\<open>Exception\<close>, so the handler catches all of them.
\<close>

definition main :: "platform \<Rightarrow> string \<Rightarrow> Namespace \<Rightarrow> proc \<Rightarrow> proc" where
  "main p file a w =
     (case ProjectBuilder_Setup a (ProjectBuilder_init file) w of
        (app, w1) \<Rightarrow>
          (case ProjectBuilder_Run p app w1 of
             (Inr u, app1, w2) \<Rightarrow> if response app1 \<noteq> [] then print (response app1) w2 else w2
           | (Inl e, app1, w2) \<Rightarrow> print (MY_NAME @ '': '' @ str_exn p e) w2))"

section \<open>Concrete inputs\<close>

text \<open>
  A small machine on which the theorems below are exercised: the script lives in
  \<^verbatim>\<open>/w/tool\<close> beside its settings file, the project in \<^verbatim>\<open>/w/proj\<close> with a build
  directory that holds one object file. The JSON reader knows the listed documents, the
  child process exits with the code \<open>rc\<close> gives for its argument vector and leaves the
  file system alone.
\<close>

definition demo_fs :: "string list \<rightharpoonup> node" where
  "demo_fs =
     [[] \<mapsto> Dir,
      [''w''] \<mapsto> Dir,
      [''w'', ''tool''] \<mapsto> Dir,
      [''w'', ''tool'', ''buildsettings.json''] \<mapsto> File ''settings'',
      [''w'', ''proj''] \<mapsto> Dir,
      [''w'', ''proj'', ''build''] \<mapsto> Dir,
      [''w'', ''proj'', ''build'', ''main.o''] \<mapsto> File ''object'']"

definition demo_platform :: "(string \<times> json) list \<Rightarrow> (string list \<Rightarrow> int) \<Rightarrow> platform" where
  "demo_platform docs rc =
     \<lparr>json_load = map_of docs,
      json_dump = (\<lambda>j. ''template''),
      child = (\<lambda>argv d env t. Exited (rc argv) ''diagnostics'' t),
      str_list = concat,
      str_int = (\<lambda>i. ''int''),
      str_bytes = (\<lambda>b. ''bytes''),
      lib_message = (\<lambda>e. ''message'')\<rparr>"

definition demo_proc :: proc where
  "demo_proc =
     \<lparr>cwd = [''w'', ''proj''], environ = [''OLDPWD'' \<mapsto> ''/w''], fs = demo_fs,
      stdout = [], spawned = [], debug_enabled = False\<rparr>"

definition demo_args :: Namespace where
  "demo_args =
     \<lparr>arg_target = ''all'', arg_configure = False, arg_build = False, arg_verbose = False,
      arg_type = [], arg_clean = False, arg_cmake_args = [], arg_create_settings = False,
      arg_debug = False\<rparr>"

definition demo_file :: string where
  "demo_file = ''/w/tool/build.py''"

definition demo_cmake :: Cmake where
  "demo_cmake = \<lparr>cmake_projectHome = ''.'', cmake_buildDirectory = ''./build''\<rparr>"

definition demo_cmake_rel :: Cmake where
  "demo_cmake_rel = \<lparr>cmake_projectHome = ''proj'', cmake_buildDirectory = ''proj/build''\<rparr>"

definition demo_proc_w :: proc where
  "demo_proc_w = demo_proc\<lparr>cwd := [''w'']\<rparr>"

definition demo_setting :: BuildSetting where
  "demo_setting = BuildSetting_init ''/w/tool''"

definition demo_partial_doc :: json where
  "demo_partial_doc = JObject [(''ProjectHome'', JString ''x'')]"

text \<open>
  Two \<^verbatim>\<open>cmake\<close> stand-ins that both find the template settings in the settings
  file: one always exits with 0, the other exits with 1 on the configure command.
\<close>

definition demo_ok :: platform where
  "demo_ok = demo_platform [(''settings'', TEMPLATE)] (\<lambda>argv. 0)"

definition demo_configure_fails :: platform where
  "demo_configure_fails =
     demo_platform [(''settings'', TEMPLATE)] (\<lambda>argv. if take 2 argv = [CMAKE, ''-S''] then 1 else 0)"

text \<open>
  A stand-in whose child always exits with 2, and one whose settings file holds a
  document without \<^verbatim>\<open>BuildDirectory\<close>.
\<close>

definition demo_exit2 :: platform where
  "demo_exit2 = demo_platform [] (\<lambda>argv. 2)"

definition demo_partial :: platform where
  "demo_partial = demo_platform [(''settings'', demo_partial_doc)] (\<lambda>argv. 0)"

text \<open>
  The command lines used below: no option, \<^verbatim>\<open>--clean\<close>, and \<^verbatim>\<open>--clean\<close> with
  \<^verbatim>\<open>--create-settings\<close>; a second copy of the script in \<^verbatim>\<open>/w/proj\<close>, where no
  settings file exists; and the builders \<^verbatim>\<open>Setup\<close> makes of them.
\<close>

definition demo_clean_args :: Namespace where
  "demo_clean_args = demo_args\<lparr>arg_clean := True\<rparr>"

definition demo_clean_create_args :: Namespace where
  "demo_clean_create_args = demo_args\<lparr>arg_clean := True, arg_create_settings := True\<rparr>"

definition demo_other_file :: string where
  "demo_other_file = ''/w/proj/build.py''"

definition demo_app :: ProjectBuilder where
  "demo_app = fst (ProjectBuilder_Setup demo_args (ProjectBuilder_init demo_file) demo_proc)"

definition demo_loaded :: ProjectBuilder where
  "demo_loaded = demo_app\<lparr>setting := demo_setting\<lparr>setting_values :=
                  \<lparr>buildDirectory = JString ''build'', projectHome = JString ''.''\<rparr>\<rparr>\<rparr>"

definition demo_clean_app :: ProjectBuilder where
  "demo_clean_app = fst (ProjectBuilder_Setup demo_clean_args (ProjectBuilder_init demo_file) demo_proc)"

definition demo_absent_app :: ProjectBuilder where
  "demo_absent_app =
     fst (ProjectBuilder_Setup demo_clean_args (ProjectBuilder_init demo_other_file) demo_proc)"

definition demo_clean_create_app :: ProjectBuilder where
  "demo_clean_create_app =
     fst (ProjectBuilder_Setup demo_clean_create_args (ProjectBuilder_init demo_other_file) demo_proc)"

section \<open>Path resolution\<close>

lemmas demo_defs = demo_proc_def demo_fs_def demo_platform_def demo_cmake_def demo_args_def demo_file_def

lemmas os_defs = os_stat_def resolve_def start_dir_def components_def os_path_exists_def os_chdir_def os_getenv_def

text \<open>
  Where a path leads depends on the file system only through the directories it crosses:
  two walks of the same names from the same place end at the same place, and a walk
  survives any change that keeps the existing directories.
\<close>

lemma walk_unique:
  "walk t cur cs = Some q \<Longrightarrow> walk t' cur cs = Some q' \<Longrightarrow> q = q'"
  by (induction t cur cs rule: walk.induct) (auto split: if_splits)

lemma walk_mono:
  "walk t cur cs = Some q \<Longrightarrow> (\<And>x. t x = Some Dir \<Longrightarrow> t' x = Some Dir)
     \<Longrightarrow> walk t' cur cs = Some q"
  by (induction t cur cs rule: walk.induct) (auto split: if_splits)

lemma walk_append:
  "walk t cur (cs @ ds) = (case walk t cur cs of None \<Rightarrow> None | Some d \<Rightarrow> walk t d ds)"
  by (induction t cur cs rule: walk.induct) auto

lemma walk_dot [simp]: "walk t cur [''.''] = (if t cur = Some Dir then Some cur else None)"
  by simp

lemma walk_survives_removal:
  assumes "walk t cur cs = Some q" and "''..'' \<notin> set cs" and "cs \<noteq> []" and "last cs \<noteq> ''.''"
  shows "walk (\<lambda>x. if prefix q x then None else t x) cur cs = Some q \<and> strict_prefix cur q
         \<and> t (butlast q) = Some Dir"
  using assms
proof (induction t cur cs rule: walk.induct)
  case (1 t cur)
  then show ?case by simp
next
  case (2 t cur c cs)
  let ?t' = "\<lambda>x. if prefix q x then None else t x"
  from "2.prems" have dir: "t cur = Some Dir" and up: "c \<noteq> ''..''"
    by (auto split: if_splits)
  show ?case
  proof (cases "c = ''.''")
    case True
    with "2.prems" have cs: "cs \<noteq> []" and l: "last cs \<noteq> ''.''" and n: "''..'' \<notin> set cs"
      and w: "walk t cur cs = Some q"
      by (auto split: if_splits)
    from "2.IH"(1) [OF _ True w n cs l] dir
    have ih: "walk ?t' cur cs = Some q" and sp: "strict_prefix cur q"
      and par: "t (butlast q) = Some Dir"
      by simp_all
    from sp have "\<not> prefix q cur"
      by (auto simp: strict_prefix_def)
    with ih sp par dir True show ?thesis
      by simp
  next
    case False
    with "2.prems" dir up have w: "walk t (cur @ [c]) cs = Some q" and n: "''..'' \<notin> set cs"
      by (auto split: if_splits)
    show ?thesis
    proof (cases "cs = []")
      case True
      with w have q: "q = cur @ [c]"
        by simp
      hence "\<not> prefix q cur"
        by (simp add: prefix_def)
      with True q dir False up show ?thesis
        by (simp add: strict_prefix_def)
    next
      case nonempty: False
      with "2.prems" have l: "last cs \<noteq> ''.''"
        by simp
      from "2.IH"(3) [OF _ False up w n nonempty l] dir
      have ih: "walk ?t' (cur @ [c]) cs = Some q" and sp: "strict_prefix (cur @ [c]) q"
        and par: "t (butlast q) = Some Dir"
        by simp_all
      from sp have sp': "strict_prefix cur q"
        by (metis prefix_order.dual_order.strict_trans strict_prefixI' append_Nil2 strict_prefix_def prefixI)
      hence "\<not> prefix q cur"
        by (auto simp: strict_prefix_def)
      with ih sp' par dir False up show ?thesis
        by simp
    qed
  qed
qed

lemma os_stat_SomeD:
  "os_stat w s = Some (q, n) \<Longrightarrow> resolve w s = Some q \<and> fs w q = Some n"
  by (auto simp: os_stat_def split: option.splits if_splits)

lemma os_path_isdir_iff: "os_path_isdir w s \<longleftrightarrow> (\<exists>q. os_stat w s = Some (q, Dir))"
  by (cases "os_stat w s") (auto simp: os_path_isdir_def split: node.splits)

lemma os_stat_cong: "cwd w' = cwd w \<Longrightarrow> fs w' = fs w \<Longrightarrow> os_stat w' s = os_stat w s"
  by (simp add: os_stat_def resolve_def start_dir_def cong: option.case_cong)

lemma read_text_exists: "read_text s w = Inr txt \<Longrightarrow> os_path_exists w s"
  by (auto simp: read_text_def os_path_exists_def split: option.splits node.splits)

lemma write_text_then_exists:
  assumes "write_text s txt w = (Inr (), w')"
  shows "os_stat w' s = (case resolve w s of None \<Rightarrow> None | Some q \<Rightarrow> Some (q, File txt))
         \<and> (\<exists>q. resolve w s = Some q \<and> w' = w\<lparr>fs := (fs w)(q \<mapsto> File txt)\<rparr>)"
proof -
  from assms obtain q where r: "resolve w s = Some q" and sl: "last s \<noteq> CHR ''/''"
    and nd: "fs w q \<noteq> Some Dir" and w': "w' = w\<lparr>fs := (fs w)(q \<mapsto> File txt)\<rparr>"
    by (auto simp: write_text_def split: option.splits if_splits)
  from r have s: "s \<noteq> []" and wk: "walk (fs w) (start_dir w s) (components s) = Some q"
    by (auto simp: resolve_def split: if_splits)
  have "walk (fs w') (start_dir w s) (components s) = Some q"
    using wk by (rule walk_mono) (use nd in \<open>auto simp: w'\<close>)
  hence "resolve w' s = Some q"
    using s by (auto simp: resolve_def start_dir_def w' split: if_splits)
  thus ?thesis
    using r sl by (simp add: os_stat_def w')
qed

text \<open>
  \<^verbatim>\<open>str.split\<close> cuts at every separator, so the names of \<^verbatim>\<open>a/b\<close> are the names
  of \<^verbatim>\<open>a\<close> followed by \<^verbatim>\<open>b\<close>.
\<close>

lemma split_on_not_Nil [simp]: "split_on c s \<noteq> []"
  by (induction s) (auto split: list.splits)

lemma split_on_append: "split_on c (a @ c # b) = split_on c a @ split_on c b"
  by (induction a) (auto split: list.splits)

lemma split_on_no_sep: "c \<notin> set b \<Longrightarrow> split_on c b = [b]"
  by (induction b) auto

lemma components_slash_name:
  "CHR ''/'' \<notin> set b \<Longrightarrow> b \<noteq> [] \<Longrightarrow> components (a @ CHR ''/'' # b) = components a @ [b]"
  by (simp add: components_def split_on_append split_on_no_sep)

lemma components_trailing_slash: "components (a @ ''/'') = components a"
  by (simp add: components_def split_on_append)

section \<open>What each call changes\<close>

text \<open>
  \<^verbatim>\<open>Debug.Print\<close> touches the output only; a child process touches the list of
  spawned commands and the file system; \<^verbatim>\<open>os.chdir\<close> touches the working directory.
\<close>

lemma Debug_Print_frame [simp]:
  "cwd (Debug_Print m w) = cwd w" "environ (Debug_Print m w) = environ w"
  "fs (Debug_Print m w) = fs w" "spawned (Debug_Print m w) = spawned w"
  "debug_enabled (Debug_Print m w) = debug_enabled w"
  by (simp_all add: Debug_Print_def print_def)

lemma os_stat_Debug_Print [simp]: "os_stat (Debug_Print m w) s = os_stat w s"
  by (rule os_stat_cong) simp_all

lemma Debug_Print_stdout:
  "stdout (Debug_Print m w) = stdout w @ debug_text (debug_enabled w) m"
  by (simp add: Debug_Print_def print_def debug_text_def)

lemma subprocess_run_effect:
  assumes "subprocess_run p args sh ck cap w = (r, w')"
  shows "spawned w' = spawned w @ [popen_argv sh args]" "cwd w' = cwd w"
    "environ w' = environ w" "stdout w' = stdout w" "debug_enabled w' = debug_enabled w"
  using assms
  by (auto simp: subprocess_run_def Let_def split: child_outcome.splits if_splits)

lemma RunSimply_effect:
  assumes "SubProcessWrapper_RunSimply p args w = (r, w')"
  shows "spawned w' = spawned w @ [args]" "cwd w' = cwd w"
    "environ w' = environ w" "stdout w' = stdout w" "debug_enabled w' = debug_enabled w"
proof -
  obtain r0 where "subprocess_run p args False True False w = (r0, w')"
    using assms
    by (cases "subprocess_run p args False True False w")
       (auto simp: SubProcessWrapper_RunSimply_def split: sum.splits exn.splits)
  from subprocess_run_effect [OF this]
  show "spawned w' = spawned w @ [args]" "cwd w' = cwd w"
    "environ w' = environ w" "stdout w' = stdout w" "debug_enabled w' = debug_enabled w"
    by (simp_all add: popen_argv_def)
qed

lemma os_chdir_effect:
  assumes "os_chdir s w = (r, w')"
  shows "spawned w' = spawned w" "fs w' = fs w"
    "environ w' = environ w" "stdout w' = stdout w" "debug_enabled w' = debug_enabled w"
  using assms
  by (auto simp: os_chdir_def split: option.splits node.splits prod.splits)

lemma Cmake_Enter_effect:
  assumes "Cmake_Enter c w = (r, w')"
  shows "spawned w' = spawned w" "fs w' = fs w"
    "environ w' = environ w" "stdout w' = stdout w" "debug_enabled w' = debug_enabled w"
  using assms os_chdir_effect [of "cmake_projectHome c" w r w']
  by (simp_all add: Cmake_Enter_def)

lemma Cmake_Exit_effect:
  assumes "Cmake_Exit c w = (r, w')"
  shows "spawned w' = spawned w" "fs w' = fs w"
    "environ w' = environ w" "stdout w' = stdout w" "debug_enabled w' = debug_enabled w"
proof -
  show "spawned w' = spawned w" "fs w' = fs w"
    "environ w' = environ w" "stdout w' = stdout w" "debug_enabled w' = debug_enabled w"
    using assms
    by (auto simp: Cmake_Exit_def split: option.splits dest: os_chdir_effect)
qed

lemma fold_Debug_Print:
  "stdout (fold Debug_Print ms w)
     = stdout w @ (if debug_enabled w then map (\<lambda>m. ''[DEBUG]'' @ m) ms else [])
   \<and> debug_enabled (fold Debug_Print ms w) = debug_enabled w"
  by (induction ms arbitrary: w) (auto simp: Debug_Print_def print_def)

lemma debug_text_map: "debug_text en m = (if en then map (\<lambda>m. ''[DEBUG]'' @ m) [m] else [])"
  by (simp add: debug_text_def)

lemma Configure_effect:
  assumes "Cmake_Configure p c w = (r, w')"
  shows "stdout w' = stdout w @ debug_text (debug_enabled w) (''command: '' @ str_list p (configure_command c))"
    and "debug_enabled w' = debug_enabled w"
    and "environ w' = environ w"
    and "spawned w' = spawned w @ [configure_command c] \<or> (spawned w' = spawned w \<and> (\<exists>e. r = Inl e))"
proof -
  let ?w0 = "Debug_Print (''command: '' @ str_list p (configure_command c)) w"
  obtain r1 w1 where en: "Cmake_Enter c ?w0 = (r1, w1)"
    by (cases "Cmake_Enter c ?w0")
  note e1 = Cmake_Enter_effect [OF en]
  have "stdout w' = stdout w @ debug_text (debug_enabled w) (''command: '' @ str_list p (configure_command c))
        \<and> debug_enabled w' = debug_enabled w \<and> environ w' = environ w
        \<and> (spawned w' = spawned w @ [configure_command c] \<or> (spawned w' = spawned w \<and> (\<exists>e. r = Inl e)))"
  proof (cases r1)
    case (Inl e)
    with assms en e1 show ?thesis
      by (auto simp: Cmake_Configure_def Let_def Debug_Print_stdout)
  next
    case (Inr u)
    obtain r2 w2 where rs: "SubProcessWrapper_RunSimply p (configure_command c) w1 = (r2, w2)"
      by (cases "SubProcessWrapper_RunSimply p (configure_command c) w1")
    note e2 = RunSimply_effect [OF rs]
    obtain r3 w3 where ex: "Cmake_Exit c w2 = (r3, w3)"
      by (cases "Cmake_Exit c w2")
    note e3 = Cmake_Exit_effect [OF ex]
    from assms en Inr rs ex e1 e2 e3 show ?thesis
      by (auto simp: Cmake_Configure_def Let_def Debug_Print_stdout split: sum.splits if_splits)
  qed
  thus "stdout w' = stdout w @ debug_text (debug_enabled w) (''command: '' @ str_list p (configure_command c))"
    and "debug_enabled w' = debug_enabled w"
    and "environ w' = environ w"
    and "spawned w' = spawned w @ [configure_command c] \<or> (spawned w' = spawned w \<and> (\<exists>e. r = Inl e))"
    by blast+
qed

lemma Build_effect:
  assumes "Cmake_Build p c tg bt vb ca w = (r, w')"
  shows "stdout w' = stdout w @ debug_text (debug_enabled w) (''command: '' @ str_list p (build_command c tg bt vb ca))"
    and "debug_enabled w' = debug_enabled w"
    and "environ w' = environ w"
    and "spawned w' = spawned w @ [build_command c tg bt vb ca] \<or> (spawned w' = spawned w \<and> (\<exists>e. r = Inl e))"
proof -
  let ?cmd = "build_command c tg bt vb ca"
  let ?w0 = "Debug_Print (''command: '' @ str_list p ?cmd) w"
  obtain r1 w1 where en: "Cmake_Enter c ?w0 = (r1, w1)"
    by (cases "Cmake_Enter c ?w0")
  note e1 = Cmake_Enter_effect [OF en]
  have "stdout w' = stdout w @ debug_text (debug_enabled w) (''command: '' @ str_list p ?cmd)
        \<and> debug_enabled w' = debug_enabled w \<and> environ w' = environ w
        \<and> (spawned w' = spawned w @ [?cmd] \<or> (spawned w' = spawned w \<and> (\<exists>e. r = Inl e)))"
  proof (cases r1)
    case (Inl e)
    with assms en e1 show ?thesis
      by (auto simp: Cmake_Build_def Let_def Debug_Print_stdout)
  next
    case (Inr u)
    obtain r2 w2 where rs: "SubProcessWrapper_RunSimply p ?cmd w1 = (r2, w2)"
      by (cases "SubProcessWrapper_RunSimply p ?cmd w1")
    note e2 = RunSimply_effect [OF rs]
    obtain r3 w3 where ex: "Cmake_Exit c w2 = (r3, w3)"
      by (cases "Cmake_Exit c w2")
    note e3 = Cmake_Exit_effect [OF ex]
    from assms en Inr rs ex e1 e2 e3 show ?thesis
      by (auto simp: Cmake_Build_def Let_def Debug_Print_stdout split: sum.splits if_splits)
  qed
  thus "stdout w' = stdout w @ debug_text (debug_enabled w) (''command: '' @ str_list p ?cmd)"
    and "debug_enabled w' = debug_enabled w"
    and "environ w' = environ w"
    and "spawned w' = spawned w @ [?cmd] \<or> (spawned w' = spawned w \<and> (\<exists>e. r = Inl e))"
    by blast+
qed

lemma Create_effect:
  assumes "BuildSetting_Create p s w = (r, w')"
  shows "spawned w' = spawned w" "stdout w' = stdout w" "cwd w' = cwd w"
  using assms
  by (auto simp: BuildSetting_Create_def write_text_def split: if_splits option.splits)

lemma Cleanup_effect:
  assumes "Cmake_Cleanup c w = (r, w')"
  shows "spawned w' = spawned w" "stdout w' = stdout w" "cwd w' = cwd w"
  using assms
  by (auto simp: Cmake_Cleanup_def shutil_rmtree_def os_mkdir_def
      split: if_splits option.splits prod.splits node.splits sum.splits)

lemma build_command_head: "take 2 (build_command c tg bt vb ca) = [CMAKE, ''--build'']"
  by (simp add: build_command_def)

lemma load_and_construct_frame:
  assumes "load_and_construct p self w = (r, self1)"
  shows "controls self1 = controls self" "arguments self1 = arguments self"
    "response self1 = response self"
  using assms
  by (auto simp: load_and_construct_def split: prod.splits sum.splits option.splits)

lemma load_and_construct_Inr:
  assumes "load_and_construct p self w = (Inr cm, self1)"
  shows "\<exists>st. BuildSetting_Load p (setting self) w = (Inr (), st)"
    and "os_path_exists w (cmake_projectHome cm)"
    and "os_path_exists w (os_path_dirname (cmake_buildDirectory cm))"
  using assms
  by (auto simp: load_and_construct_def Cmake_init_def
      split: prod.splits sum.splits option.splits if_splits)

lemma Load_absent:
  "\<not> os_path_exists w (setting_path s) \<Longrightarrow>
   BuildSetting_Load p s w = (Inl (RuntimeError (FILE_NAME @ '' does not exist.'')), s)"
  by (simp add: BuildSetting_Load_def)

lemma Setup_effect:
  assumes "ProjectBuilder_Setup a self w = (app, w1)"
  shows "debug_enabled w1 = arg_debug a"
    and "createSetting (controls app) = arg_create_settings a"
    and "doCleanup (controls app) = arg_clean a"
    and "response app = response self"
    and "\<exists>ms. stdout w1 = stdout w @ (if arg_debug a then map (\<lambda>m. ''[DEBUG]'' @ m) ms else [])"
proof -
  from assms have w1: "w1 = ProjectBuilder_PrintArgument a (w\<lparr>debug_enabled := arg_debug a\<rparr>)"
    by (auto simp: ProjectBuilder_Setup_def Let_def)
  from assms show "createSetting (controls app) = arg_create_settings a"
    "doCleanup (controls app) = arg_clean a" "response app = response self"
    by (auto simp: ProjectBuilder_Setup_def ProjectBuilder_verifyControls_def Let_def
        split: if_splits)
  have "\<exists>ms. w1 = fold Debug_Print ms (w\<lparr>debug_enabled := arg_debug a\<rparr>)"
    unfolding w1 ProjectBuilder_PrintArgument_def by (rule exI) (rule refl)
  then obtain ms where f: "w1 = fold Debug_Print ms (w\<lparr>debug_enabled := arg_debug a\<rparr>)"
    by blast
  show "debug_enabled w1 = arg_debug a"
    by (simp add: f fold_Debug_Print)
  have "stdout w1 = stdout w @ (if arg_debug a then map (\<lambda>m. ''[DEBUG]'' @ m) ms else [])"
    by (simp add: f fold_Debug_Print)
  thus "\<exists>ms. stdout w1 = stdout w @ (if arg_debug a then map (\<lambda>m. ''[DEBUG]'' @ m) ms else [])"
    by blast
qed

section \<open>The concrete machine\<close>

text \<open>
  The values of the calls on the concrete inputs, computed once and used by the
  instances below.
\<close>

lemma demo_setting_path: "setting_path demo_setting = ''/w/tool/buildsettings.json''"
  by (simp add: demo_setting_def BuildSetting_init_def os_path_join_def FILE_NAME_def)

lemma demo_setting_values: "setting_values demo_setting = Values_init"
  by (simp add: demo_setting_def BuildSetting_init_def)

lemma demo_settings_stat:
  "os_stat demo_proc ''/w/tool/buildsettings.json''
     = Some ([''w'', ''tool'', ''buildsettings.json''], File ''settings'')"
  by (simp add: demo_proc_def demo_fs_def os_stat_def resolve_def start_dir_def components_def)

lemma demo_stat_dot: "os_stat demo_proc ''.'' = Some ([''w'', ''proj''], Dir)"
  by (simp add: demo_proc_def demo_fs_def os_stat_def resolve_def start_dir_def components_def)

lemma demo_Setup:
  "ProjectBuilder_Setup demo_args (ProjectBuilder_init demo_file) demo_proc = (demo_app, demo_proc)"
  by (simp add: demo_app_def ProjectBuilder_Setup_def ProjectBuilder_PrintArgument_def
      Debug_Print_def ProjectBuilder_verifyControls_def demo_args_def demo_proc_def Let_def)

lemma demo_app_fields:
  "controls demo_app = Controls_init" "arguments demo_app = Some demo_args"
  "response demo_app = []" "setting demo_app = demo_setting"
  by (simp_all add: demo_app_def ProjectBuilder_Setup_def ProjectBuilder_verifyControls_def
      ProjectBuilder_init_def Controls_init_def demo_args_def demo_setting_def demo_file_def
      os_path_dirname_def rstrip_slash_def Let_def)

lemma demo_Load:
  "json_load p ''settings'' = Some TEMPLATE \<Longrightarrow>
   BuildSetting_Load p demo_setting demo_proc
     = (Inr (), demo_setting\<lparr>setting_values :=
                  \<lparr>buildDirectory = JString ''build'', projectHome = JString ''.''\<rparr>\<rparr>)"
  by (simp add: BuildSetting_Load_def BuildSetting_import_def read_text_def os_path_exists_def
      demo_setting_path demo_settings_stat demo_setting_values TEMPLATE_def PROJECT_HOME_def
      BUILD_DIR_def Values_init_def Let_def)

lemma demo_Cmake_init: "Cmake_init ''.'' (os_path_join ''.'' ''build'') demo_proc = Inr demo_cmake"
  by (simp add: Cmake_init_def os_path_join_def os_path_dirname_def rstrip_slash_def
      os_path_exists_def demo_stat_dot demo_cmake_def)

lemma demo_proc_fields:
  "cwd demo_proc = [''w'', ''proj'']" "fs demo_proc = demo_fs"
  "environ demo_proc = [''OLDPWD'' \<mapsto> ''/w'']" "\<not> debug_enabled demo_proc"
  "spawned demo_proc = []" "stdout demo_proc = []"
  by (simp_all add: demo_proc_def)

lemma demo_json_load:
  "json_load demo_ok ''settings'' = Some TEMPLATE"
  "json_load demo_configure_fails ''settings'' = Some TEMPLATE"
  by (simp_all add: demo_ok_def demo_configure_fails_def demo_platform_def)

lemma demo_load_and_construct_full:
  "json_load p ''settings'' = Some TEMPLATE \<Longrightarrow>
   load_and_construct p demo_app demo_proc = (Inr demo_cmake, demo_loaded)"
  by (simp add: load_and_construct_def demo_app_fields demo_Load demo_Cmake_init demo_loaded_def)

lemma demo_loaded_fields:
  "controls demo_loaded = Controls_init" "arguments demo_loaded = Some demo_args"
  "response demo_loaded = []"
  by (simp_all add: demo_loaded_def demo_app_fields)

lemma demo_configure_command: "configure_command demo_cmake = [''cmake'', ''-S'', ''.'', ''-B'', ''./build'']"
  by (simp add: configure_command_def demo_cmake_def CMAKE_def)

lemma demo_Configure:
  "Cmake_Configure (demo_platform docs rc) demo_cmake demo_proc
     = (if rc [''cmake'', ''-S'', ''.'', ''-B'', ''./build''] = 0
        then (Inr True, demo_proc\<lparr>spawned := [[''cmake'', ''-S'', ''.'', ''-B'', ''./build'']]\<rparr>)
        else (Inr False, demo_proc\<lparr>cwd := [''w''],
                           spawned := [[''cmake'', ''-S'', ''.'', ''-B'', ''./build'']]\<rparr>))"
  by (simp add: Cmake_Configure_def Cmake_Enter_def Cmake_Exit_def
      SubProcessWrapper_RunSimply_def subprocess_run_def popen_argv_def Debug_Print_def
      configure_command_def CMAKE_def demo_cmake_def demo_proc_def demo_fs_def demo_platform_def
      os_defs Let_def)

lemma demo_Build:
  "cwd w = [''w'', ''proj''] \<Longrightarrow> fs w = demo_fs \<Longrightarrow> environ w = [''OLDPWD'' \<mapsto> ''/w'']
   \<Longrightarrow> \<not> debug_enabled w \<Longrightarrow>
   Cmake_Build (demo_platform docs rc) demo_cmake ''all'' (Some []) False (Some [[]]) w
     = (Inr (rc [''cmake'', ''--build'', ''./build'', ''--target'', ''all''] = 0),
        w\<lparr>cwd := [''w''], fs := demo_fs,
          spawned := spawned w @ [[''cmake'', ''--build'', ''./build'', ''--target'', ''all'']]\<rparr>)"
  by (simp add: Cmake_Build_def Cmake_Enter_def Cmake_Exit_def build_command_def
      SubProcessWrapper_RunSimply_def subprocess_run_def popen_argv_def Debug_Print_def
      demo_cmake_def demo_fs_def demo_platform_def CMAKE_def
      os_defs Let_def)

lemma demo_Configure_ok:
  "Cmake_Configure demo_ok demo_cmake demo_proc
     = (Inr True, demo_proc\<lparr>spawned := [[''cmake'', ''-S'', ''.'', ''-B'', ''./build'']]\<rparr>)"
  by (simp add: demo_ok_def demo_Configure)

lemma demo_Build_after_Configure:
  "Cmake_Build demo_ok demo_cmake ''all'' (Some []) False (Some [[]])
     (demo_proc\<lparr>spawned := [[''cmake'', ''-S'', ''.'', ''-B'', ''./build'']]\<rparr>)
   = (Inr True,
      demo_proc\<lparr>cwd := [''w''],
                spawned := [[''cmake'', ''-S'', ''.'', ''-B'', ''./build''],
                            [''cmake'', ''--build'', ''./build'', ''--target'', ''all'']]\<rparr>)"
  unfolding demo_ok_def
  by (subst demo_Build) (simp_all add: demo_proc_fields demo_proc_def)

lemma demo_Run_ok:
  "ProjectBuilder_Run demo_ok demo_app demo_proc
     = (Inr (), demo_loaded,
        demo_proc\<lparr>cwd := [''w''],
                  spawned := [[''cmake'', ''-S'', ''.'', ''-B'', ''./build''],
                              [''cmake'', ''--build'', ''./build'', ''--target'', ''all'']]\<rparr>)"
proof -
  have c: "Cmake_Configure demo_ok demo_cmake demo_proc
             = (Inr True, demo_proc\<lparr>spawned := [[''cmake'', ''-S'', ''.'', ''-B'', ''./build'']]\<rparr>)"
    by (simp add: demo_ok_def demo_Configure)
  have b: "Cmake_Build demo_ok demo_cmake ''all'' (Some []) False (Some [[]])
             (demo_proc\<lparr>spawned := [[''cmake'', ''-S'', ''.'', ''-B'', ''./build'']]\<rparr>)
           = (Inr True,
              demo_proc\<lparr>cwd := [''w''],
                        spawned := [[''cmake'', ''-S'', ''.'', ''-B'', ''./build''],
                                    [''cmake'', ''--build'', ''./build'', ''--target'', ''all'']]\<rparr>)"
    unfolding demo_ok_def
    by (subst demo_Build) (simp_all add: demo_proc_fields demo_proc_def)
  show ?thesis
    by (simp add: ProjectBuilder_Run_def demo_app_fields demo_load_and_construct_full
        demo_json_load demo_loaded_fields Controls_init_def configure_and_build_def c b
        demo_args_def)
qed

lemma Setup_quiet:
  "\<not> arg_debug a \<Longrightarrow> snd (ProjectBuilder_Setup a self demo_proc) = demo_proc"
  by (simp add: ProjectBuilder_Setup_def ProjectBuilder_PrintArgument_def Debug_Print_def
      demo_proc_def Let_def)

lemma demo_args_quiet:
  "\<not> arg_debug demo_args" "\<not> arg_debug demo_clean_args" "\<not> arg_debug demo_clean_create_args"
  by (simp_all add: demo_args_def demo_clean_args_def demo_clean_create_args_def)

lemma demo_Setups:
  "ProjectBuilder_Setup demo_clean_args (ProjectBuilder_init demo_file) demo_proc
     = (demo_clean_app, demo_proc)"
  "ProjectBuilder_Setup demo_clean_args (ProjectBuilder_init demo_other_file) demo_proc
     = (demo_absent_app, demo_proc)"
  "ProjectBuilder_Setup demo_clean_create_args (ProjectBuilder_init demo_other_file) demo_proc
     = (demo_clean_create_app, demo_proc)"
  by (simp_all add: prod_eq_iff demo_clean_app_def demo_absent_app_def demo_clean_create_app_def
      Setup_quiet demo_args_quiet)

lemma demo_dirnames:
  "os_path_dirname demo_file = ''/w/tool''" "os_path_dirname demo_other_file = ''/w/proj''"
  by (simp_all add: demo_file_def demo_other_file_def os_path_dirname_def rstrip_slash_def)

lemma demo_clean_app_fields:
  "controls demo_clean_app = Controls_init\<lparr>doCleanup := True\<rparr>"
  "arguments demo_clean_app = Some demo_clean_args"
  "response demo_clean_app = []" "setting demo_clean_app = demo_setting"
  by (simp_all add: demo_clean_app_def ProjectBuilder_Setup_def ProjectBuilder_verifyControls_def
      ProjectBuilder_init_def Controls_init_def demo_args_def demo_clean_args_def
      demo_setting_def demo_dirnames Let_def)

lemma demo_absent_app_fields:
  "controls demo_absent_app = Controls_init\<lparr>doCleanup := True\<rparr>"
  "response demo_absent_app = []"
  "setting demo_absent_app = BuildSetting_init ''/w/proj''"
  by (simp_all add: demo_absent_app_def ProjectBuilder_Setup_def ProjectBuilder_verifyControls_def
      ProjectBuilder_init_def Controls_init_def demo_args_def demo_clean_args_def
      demo_dirnames Let_def)

lemma demo_clean_create_app_fields:
  "controls demo_clean_create_app = Controls_init\<lparr>doCleanup := True, createSetting := True\<rparr>"
  "response demo_clean_create_app = []"
  "setting demo_clean_create_app = BuildSetting_init ''/w/proj''"
  by (simp_all add: demo_clean_create_app_def ProjectBuilder_Setup_def
      ProjectBuilder_verifyControls_def ProjectBuilder_init_def Controls_init_def demo_args_def
      demo_clean_create_args_def demo_dirnames Let_def)

lemma demo_clean_load_and_construct:
  "json_load p ''settings'' = Some TEMPLATE \<Longrightarrow>
   fst (load_and_construct p demo_clean_app demo_proc) = Inr demo_cmake"
  by (simp add: load_and_construct_def demo_clean_app_fields demo_Load demo_Cmake_init)

lemma demo_stat_build:
  "os_stat demo_proc ''./build'' = Some ([''w'', ''proj'', ''build''], Dir)"
  by (simp add: os_stat_def resolve_def start_dir_def components_def demo_proc_def demo_fs_def)

lemma demo_cleanup_returns: "fst (Cmake_Cleanup demo_cmake demo_proc) = Inr ()"
  by (simp add: Cmake_Cleanup_def shutil_rmtree_def os_mkdir_def os_stat_def resolve_def
      start_dir_def components_def demo_proc_def demo_fs_def demo_cmake_def)

lemma demo_cleanup_removes:
  "fs (snd (Cmake_Cleanup demo_cmake demo_proc)) [''w'', ''proj'', ''build'', ''main.o''] = None"
  by (simp add: Cmake_Cleanup_def shutil_rmtree_def os_mkdir_def os_stat_def resolve_def
      start_dir_def components_def demo_proc_def demo_fs_def demo_cmake_def)

lemma demo_Run_clean:
  "fst (ProjectBuilder_Run demo_ok demo_clean_app demo_proc) = Inr ()"
  "snd (snd (ProjectBuilder_Run demo_ok demo_clean_app demo_proc))
     = snd (Cmake_Cleanup demo_cmake demo_proc)"
  "response (fst (snd (ProjectBuilder_Run demo_ok demo_clean_app demo_proc))) = cleaned_response"
  using demo_cleanup_returns
  by (cases "Cmake_Cleanup demo_cmake demo_proc";
      simp add: ProjectBuilder_Run_def demo_clean_app_fields Controls_init_def
        load_and_construct_def demo_Load demo_Cmake_init demo_json_load)+

lemma demo_setting_exists: "os_path_exists demo_proc (setting_path demo_setting)"
  by (simp add: demo_setting_def BuildSetting_init_def os_path_join_def FILE_NAME_def
      demo_proc_def demo_fs_def os_defs)

lemma demo_proj_no_setting:
  "\<not> os_path_exists demo_proc (setting_path (BuildSetting_init ''/w/proj''))"
  by (simp add: BuildSetting_init_def os_path_join_def FILE_NAME_def
      demo_proc_def demo_fs_def os_defs)

lemma demo_proj_isdir: "os_path_isdir demo_proc ''/w/proj''"
  by (simp add: os_path_isdir_def demo_proc_def demo_fs_def os_defs)

section \<open>SubProcessWrapper\<close>

text \<open>
  Claim C8. \<^verbatim>\<open>RunWithoutOutput\<close> returns the exit code of the child whatever it is:
  when the shell it starts exits with \<open>rc\<close> the call returns \<open>rc\<close> and raises nothing.
  \<^verbatim>\<open>Run\<close> raises \<open>CalledProcessError\<close> with the code when the child exits non-zero.
\<close>

theorem RunWithoutOutput_returns_code_Run_raises:
  assumes "child p (popen_argv True args) (cwd w) (environ w) (fs w) = Exited rc err t"
      and "child p args (cwd w) (environ w) (fs w) = Exited rc' err' t'"
      and "rc' \<noteq> 0"
  shows "fst (SubProcessWrapper_RunWithoutOutput p args w) = Inr rc
         \<and> fst (SubProcessWrapper_Run p args w) = Inl (CalledProcessError rc' args None)"
  using assms
  by (simp add: SubProcessWrapper_RunWithoutOutput_def SubProcessWrapper_Run_def
      subprocess_run_def popen_argv_def Let_def)

theorem RunWithoutOutput_returns_code_Run_raises_witness:
  "child demo_exit2 (popen_argv True [''cmake'', ''--version''])
     (cwd demo_proc) (environ demo_proc) (fs demo_proc) = Exited 2 ''diagnostics'' demo_fs
   \<and> child demo_exit2 [''cmake'', ''--version'']
     (cwd demo_proc) (environ demo_proc) (fs demo_proc) = Exited 2 ''diagnostics'' demo_fs
   \<and> (2 :: int) \<noteq> 0
   \<and> fst (SubProcessWrapper_RunWithoutOutput demo_exit2
            [''cmake'', ''--version''] demo_proc) = Inr 2
   \<and> fst (SubProcessWrapper_Run demo_exit2 [''cmake'', ''--version''] demo_proc)
       = Inl (CalledProcessError 2 [''cmake'', ''--version''] None)"
proof -
  let ?p = "demo_exit2"
  have c1: "child ?p (popen_argv True [''cmake'', ''--version''])
              (cwd demo_proc) (environ demo_proc) (fs demo_proc) = Exited 2 ''diagnostics'' demo_fs"
    and c2: "child ?p [''cmake'', ''--version'']
              (cwd demo_proc) (environ demo_proc) (fs demo_proc) = Exited 2 ''diagnostics'' demo_fs"
    by (simp_all add: demo_exit2_def demo_platform_def demo_proc_def)
  have nz: "(2 :: int) \<noteq> 0"
    by simp
  from RunWithoutOutput_returns_code_Run_raises [OF c1 c2 nz] c1 c2 show ?thesis
    by simp
qed

text \<open>
  Claim C9. \<^verbatim>\<open>RunWithoutOutput\<close> hands its list to \<^verbatim>\<open>subprocess.run\<close> with
  \<^verbatim>\<open>shell=True\<close>, so what is executed is \<^verbatim>\<open>/bin/sh -c\<close> followed by the list. For a list
  of two or more elements the command text the shell interprets is the first element
  alone; the remaining elements are the positional parameters of the shell, not
  arguments of that command. (\<^verbatim>\<open>RunSimply\<close>, which does not ask for a shell, executes
  the list itself.)
\<close>

theorem RunWithoutOutput_shell_takes_first_element:
  assumes "2 \<le> length args"
  shows "spawned (snd (SubProcessWrapper_RunWithoutOutput p args w))
           = spawned w @ [[''/bin/sh'', ''-c''] @ args]
         \<and> sh_command_text (last (spawned (snd (SubProcessWrapper_RunWithoutOutput p args w))))
           = Some (hd args)
         \<and> sh_positional (last (spawned (snd (SubProcessWrapper_RunWithoutOutput p args w))))
           = tl args
         \<and> last (spawned (snd (SubProcessWrapper_RunSimply p args w))) = args"
proof -
  have sp: "spawned (snd (SubProcessWrapper_RunWithoutOutput p args w))
              = spawned w @ [[''/bin/sh'', ''-c''] @ args]"
    by (simp add: SubProcessWrapper_RunWithoutOutput_def subprocess_run_def popen_argv_def
        Let_def split: child_outcome.splits exn.splits)
  obtain r w1 where "SubProcessWrapper_RunSimply p args w = (r, w1)"
    by (cases "SubProcessWrapper_RunSimply p args w")
  from RunSimply_effect(1) [OF this] this
  have rs: "last (spawned (snd (SubProcessWrapper_RunSimply p args w))) = args"
    by simp
  from assms obtain a b rest where "args = a # b # rest"
    by (cases args; cases "tl args") auto
  with sp rs show ?thesis
    by (simp add: sh_command_text_def sh_positional_def)
qed

theorem RunWithoutOutput_shell_takes_first_element_witness:
  "2 \<le> length [''cmake'', ''--version'']
   \<and> spawned (snd (SubProcessWrapper_RunWithoutOutput demo_ok
                     [''cmake'', ''--version''] demo_proc))
       = [[''/bin/sh'', ''-c'', ''cmake'', ''--version'']]
   \<and> sh_command_text (last (spawned (snd (SubProcessWrapper_RunWithoutOutput
                     demo_ok [''cmake'', ''--version''] demo_proc))))
       = Some ''cmake''
   \<and> sh_positional (last (spawned (snd (SubProcessWrapper_RunWithoutOutput
                     demo_ok [''cmake'', ''--version''] demo_proc))))
       = [''--version'']
   \<and> last (spawned (snd (SubProcessWrapper_RunSimply demo_ok
                     [''cmake'', ''--version''] demo_proc)))
       = [''cmake'', ''--version'']"
proof -
  have e: "spawned demo_proc = []"
    by (simp add: demo_proc_def)
  from RunWithoutOutput_shell_takes_first_element
         [of "[''cmake'', ''--version'']" "demo_ok" demo_proc]
  show ?thesis
    by (auto simp: e)
qed

section \<open>Cmake\<close>

text \<open>
  Claim C7. When the build directory exists (its path leads to a directory at the
  absolute location \<open>q\<close>) and \<^verbatim>\<open>Cleanup\<close> returns, the same path still leads to a
  directory at \<open>q\<close>, nothing exists below \<open>q\<close>, everything outside \<open>q\<close> is as it was, and
  the working directory has not moved.
\<close>

theorem Cleanup_leaves_empty_directory:
  assumes dir: "os_stat w (cmake_buildDirectory c) = Some (q, Dir)"
      and ret: "Cmake_Cleanup c w = (Inr (), w')"
  shows "os_stat w' (cmake_buildDirectory c) = Some (q, Dir)
         \<and> (\<forall>x. strict_prefix q x \<longrightarrow> fs w' x = None)
         \<and> (\<forall>x. \<not> prefix q x \<longrightarrow> fs w' x = fs w x)
         \<and> cwd w' = cwd w"
proof -
  let ?s = "cmake_buildDirectory c"
  let ?w1 = "w\<lparr>fs := (\<lambda>x. if prefix q x then None else fs w x)\<rparr>"
  from dir have res: "resolve w ?s = Some q"
    by (auto dest: os_stat_SomeD)
  from ret dir have mk: "os_mkdir ?s ?w1 = (Inr (), w')"
    by (auto simp: Cmake_Cleanup_def shutil_rmtree_def split: if_splits)
  from mk obtain q1 where r1: "resolve ?w1 ?s = Some q1"
    and w': "w' = ?w1\<lparr>fs := (fs ?w1)(q1 \<mapsto> Dir)\<rparr>"
    by (auto simp: os_mkdir_def split: option.splits if_splits)
  from res have s: "?s \<noteq> []"
    and wk: "walk (fs w) (start_dir w ?s) (components ?s) = Some q"
    by (auto simp: resolve_def split: if_splits)
  from r1 s have wk1: "walk (fs ?w1) (start_dir w ?s) (components ?s) = Some q1"
    by (auto simp: resolve_def start_dir_def split: if_splits)
  from wk wk1 have eq: "q1 = q"
    by (auto dest: walk_unique)
  have "walk (fs w') (start_dir w ?s) (components ?s) = Some q"
    using wk1 unfolding eq by (rule walk_mono) (auto simp: w' eq)
  hence "resolve w' ?s = Some q"
    using s by (auto simp: resolve_def start_dir_def w' split: if_splits)
  moreover have "fs w' q = Some Dir"
    by (simp add: w' eq)
  ultimately have "os_stat w' ?s = Some (q, Dir)"
    by (simp add: os_stat_def)
  moreover have "\<forall>x. strict_prefix q x \<longrightarrow> fs w' x = None"
    by (auto simp: w' eq strict_prefix_def)
  moreover have "\<forall>x. \<not> prefix q x \<longrightarrow> fs w' x = fs w x"
    by (auto simp: w' eq)
  moreover have "cwd w' = cwd w"
    by (simp add: w')
  ultimately show ?thesis
    by blast
qed

theorem Cleanup_leaves_empty_directory_witness:
  "os_stat demo_proc (cmake_buildDirectory demo_cmake) = Some ([''w'', ''proj'', ''build''], Dir)
   \<and> fs demo_proc [''w'', ''proj'', ''build'', ''main.o''] = Some (File ''object'')
   \<and> fst (Cmake_Cleanup demo_cmake demo_proc) = Inr ()
   \<and> os_stat (snd (Cmake_Cleanup demo_cmake demo_proc)) (cmake_buildDirectory demo_cmake)
       = Some ([''w'', ''proj'', ''build''], Dir)
   \<and> fs (snd (Cmake_Cleanup demo_cmake demo_proc)) [''w'', ''proj'', ''build'', ''main.o''] = None"
proof -
  have d: "os_stat demo_proc (cmake_buildDirectory demo_cmake)
             = Some ([''w'', ''proj'', ''build''], Dir)"
    by (simp add: demo_stat_build demo_cmake_def)
  have r: "Cmake_Cleanup demo_cmake demo_proc
             = (Inr (), snd (Cmake_Cleanup demo_cmake demo_proc))"
    using demo_cleanup_returns by (metis prod.collapse)
  have f: "fs demo_proc [''w'', ''proj'', ''build'', ''main.o''] = Some (File ''object'')"
    by (simp add: demo_proc_def demo_fs_def)
  from Cleanup_leaves_empty_directory [OF d r] d f demo_cleanup_returns show ?thesis
    by (auto simp: strict_prefix_def)
qed

text \<open>
  \<^verbatim>\<open>Cleanup\<close> does return whenever the build directory exists and its path is made
  of plain names (no \<^verbatim>\<open>..\<close>, and not ending in \<^verbatim>\<open>.\<close>).
\<close>

lemma Cleanup_returns:
  assumes dir: "os_stat w (cmake_buildDirectory c) = Some (q, Dir)"
      and names: "''..'' \<notin> set (components (cmake_buildDirectory c))"
                 "components (cmake_buildDirectory c) \<noteq> []"
                 "last (components (cmake_buildDirectory c)) \<noteq> ''.''"
  shows "fst (Cmake_Cleanup c w) = Inr ()"
proof -
  let ?s = "cmake_buildDirectory c"
  let ?t' = "\<lambda>x. if prefix q x then None else fs w x"
  from dir have s: "?s \<noteq> []" and wk: "walk (fs w) (start_dir w ?s) (components ?s) = Some q"
    by (auto simp: os_stat_def resolve_def split: option.splits if_splits)
  from walk_survives_removal [OF wk names]
  have wk': "walk ?t' (start_dir w ?s) (components ?s) = Some q"
    and sp: "strict_prefix (start_dir w ?s) q"
    and par: "fs w (butlast q) = Some Dir"
    by simp_all
  from sp have q: "q \<noteq> []"
    by (auto simp: strict_prefix_def)
  hence "\<not> prefix q (butlast q)"
    by (metis append_butlast_last_id not_Cons_self2 prefix_order.antisym prefixI same_append_eq self_append_conv)
  with par have par': "?t' (butlast q) = Some Dir"
    by simp
  let ?w1 = "w\<lparr>fs := ?t'\<rparr>"
  from dir q have rm: "shutil_rmtree ?s w = (Inr (), ?w1)"
    by (simp add: shutil_rmtree_def)
  from wk' s have "resolve ?w1 ?s = Some q"
    by (auto simp: resolve_def start_dir_def split: if_splits)
  with q par' have "fst (os_mkdir ?s ?w1) = Inr ()"
    by (simp add: os_mkdir_def)
  with rm show ?thesis
    by (simp add: Cmake_Cleanup_def)
qed

text \<open>
  Claim C1 asks that \<^verbatim>\<open>Configure\<close> and \<^verbatim>\<open>Build\<close> leave the working directory where
  it was. The code does not: \<^verbatim>\<open>Configure\<close> returns \<open>True\<close> without calling
  \<^verbatim>\<open>__Exit\<close>, and \<^verbatim>\<open>__Exit\<close> changes to the directory named by the environment
  variable \<^verbatim>\<open>OLDPWD\<close>, which \<^verbatim>\<open>os.chdir\<close> never sets. Started in \<^verbatim>\<open>/w\<close> with the
  project in \<^verbatim>\<open>proj\<close>, a successful \<^verbatim>\<open>Configure\<close> ends in \<^verbatim>\<open>/w/proj\<close>; started in
  \<^verbatim>\<open>/w/proj\<close> with \<^verbatim>\<open>OLDPWD=/w\<close>, a successful \<^verbatim>\<open>Build\<close> ends in \<^verbatim>\<open>/w\<close>.
\<close>

theorem Configure_and_Build_move_cwd:
  "cwd demo_proc_w = [''w'']
   \<and> fst (Cmake_Configure demo_ok demo_cmake_rel demo_proc_w) = Inr True
   \<and> cwd (snd (Cmake_Configure demo_ok demo_cmake_rel demo_proc_w)) = [''w'', ''proj'']
   \<and> cwd demo_proc = [''w'', ''proj'']
   \<and> fst (Cmake_Build demo_ok demo_cmake ''all'' None False None demo_proc) = Inr True
   \<and> cwd (snd (Cmake_Build demo_ok demo_cmake ''all'' None False None demo_proc)) = [''w'']"
  by (simp add: Cmake_Configure_def Cmake_Build_def Cmake_Enter_def Cmake_Exit_def
      SubProcessWrapper_RunSimply_def subprocess_run_def popen_argv_def Debug_Print_def
      demo_cmake_rel_def demo_proc_w_def demo_ok_def demo_defs os_defs Let_def)

text \<open>
  The two defects hold on every run, not only on the one above: whenever
  \<^verbatim>\<open>Configure\<close> returns \<open>True\<close> the process is left in the project home, and
  \<^verbatim>\<open>Build\<close> can only return when \<^verbatim>\<open>OLDPWD\<close> is set in the environment.
\<close>

lemma Configure_True_stays_in_projectHome:
  assumes "Cmake_Configure p c w = (Inr True, w')"
  shows "os_stat w (cmake_projectHome c) = Some (cwd w', Dir)"
proof -
  let ?w0 = "Debug_Print (''command: '' @ str_list p (configure_command c)) w"
  obtain r1 w1 where en: "Cmake_Enter c ?w0 = (r1, w1)"
    by (cases "Cmake_Enter c ?w0")
  obtain r2 w2 where rs: "SubProcessWrapper_RunSimply p (configure_command c) w1 = (r2, w2)"
    by (cases "SubProcessWrapper_RunSimply p (configure_command c) w1")
  obtain r3 w3 where ex: "Cmake_Exit c w2 = (r3, w3)"
    by (cases "Cmake_Exit c w2")
  from assms en rs ex have r1: "r1 = Inr ()" and w': "w' = w2"
    by (auto simp: Cmake_Configure_def Let_def split: sum.splits if_splits)
  from en r1 have "os_stat w (cmake_projectHome c) = Some (cwd w1, Dir)"
    by (auto simp: Cmake_Enter_def os_chdir_def split: option.splits node.splits prod.splits)
  with RunSimply_effect(2) [OF rs] w' show ?thesis
    by simp
qed

lemma Build_returns_only_with_OLDPWD:
  assumes "Cmake_Build p c tg bt vb ca w = (Inr b, w')"
  shows "\<exists>d. os_getenv w ''OLDPWD'' = Some d"
proof -
  let ?cmd = "build_command c tg bt vb ca"
  let ?w0 = "Debug_Print (''command: '' @ str_list p ?cmd) w"
  obtain r1 w1 where en: "Cmake_Enter c ?w0 = (r1, w1)"
    by (cases "Cmake_Enter c ?w0")
  obtain r2 w2 where rs: "SubProcessWrapper_RunSimply p ?cmd w1 = (r2, w2)"
    by (cases "SubProcessWrapper_RunSimply p ?cmd w1")
  obtain r3 w3 where ex: "Cmake_Exit c w2 = (r3, w3)"
    by (cases "Cmake_Exit c w2")
  from assms en rs ex have "r3 = Inr ()"
    by (auto simp: Cmake_Build_def Let_def split: sum.splits if_splits)
  with ex have "os_getenv w2 ''OLDPWD'' \<noteq> None"
    by (auto simp: Cmake_Exit_def split: option.splits)
  with RunSimply_effect(3) [OF rs] Cmake_Enter_effect(3) [OF en] show ?thesis
    by (auto simp: os_getenv_def)
qed

section \<open>BuildSetting\<close>

text \<open>
  Claim C2 says that \<^verbatim>\<open>Load\<close> on a settings file that lacks a required key raises
  and leaves the stored values as they were. It raises, but when only
  \<^verbatim>\<open>BuildDirectory\<close> is missing \<open>projectHome\<close> has already been overwritten.
\<close>

theorem Load_partial_counterexample:
  "fst (BuildSetting_Load demo_partial demo_setting demo_proc)
     = Inl (KeyError ''BuildDirectory'')
   \<and> setting_values demo_setting = \<lparr>buildDirectory = JString [], projectHome = JString []\<rparr>
   \<and> setting_values (snd (BuildSetting_Load demo_partial demo_setting demo_proc))
     = \<lparr>buildDirectory = JString [], projectHome = JString ''x''\<rparr>"
  by (simp add: BuildSetting_Load_def BuildSetting_import_def read_text_def demo_setting_def
      BuildSetting_init_def Values_init_def os_path_join_def FILE_NAME_def PROJECT_HOME_def
      BUILD_DIR_def demo_partial_doc_def demo_partial_def demo_defs os_defs)

text \<open>
  Claim C2, amended. For a settings file that holds a JSON object lacking
  \<^verbatim>\<open>ProjectHome\<close> or \<^verbatim>\<open>BuildDirectory\<close>, \<^verbatim>\<open>Load\<close> raises \<open>KeyError\<close> and leaves
  \<open>buildDirectory\<close> unchanged; \<open>projectHome\<close> is unchanged when \<^verbatim>\<open>ProjectHome\<close> is
  missing, and is the value of the file when only \<^verbatim>\<open>BuildDirectory\<close> is missing.
\<close>

theorem Load_missing_key:
  assumes rd: "read_text (setting_path s) w = Inr txt"
      and doc: "json_load p txt = Some (JObject kvs)"
      and missing: "map_of kvs PROJECT_HOME = None \<or> map_of kvs BUILD_DIR = None"
  shows "(\<exists>k. fst (BuildSetting_Load p s w) = Inl (KeyError k))
         \<and> buildDirectory (setting_values (snd (BuildSetting_Load p s w)))
             = buildDirectory (setting_values s)
         \<and> projectHome (setting_values (snd (BuildSetting_Load p s w)))
             = (case map_of kvs PROJECT_HOME of None \<Rightarrow> projectHome (setting_values s) | Some v \<Rightarrow> v)
         \<and> setting_path (snd (BuildSetting_Load p s w)) = setting_path s"
proof -
  from rd have ex: "os_path_exists w (setting_path s)"
    by (rule read_text_exists)
  from rd doc have imp: "BuildSetting_import p s w = Inr (JObject kvs)"
    by (simp add: BuildSetting_import_def)
  show ?thesis
  proof (cases "map_of kvs PROJECT_HOME")
    case None
    with ex imp show ?thesis
      by (simp add: BuildSetting_Load_def)
  next
    case (Some v)
    with missing have "map_of kvs BUILD_DIR = None"
      by simp
    with Some ex imp show ?thesis
      by (simp add: BuildSetting_Load_def Let_def)
  qed
qed

theorem Load_missing_key_witness:
  "read_text (setting_path demo_setting) demo_proc = Inr ''settings''
   \<and> json_load demo_partial ''settings''
       = Some (JObject [(''ProjectHome'', JString ''x'')])
   \<and> map_of [(''ProjectHome'', JString ''x'')] BUILD_DIR = None
   \<and> fst (BuildSetting_Load demo_partial demo_setting demo_proc)
       = Inl (KeyError ''BuildDirectory'')
   \<and> projectHome (setting_values (snd (BuildSetting_Load demo_partial demo_setting demo_proc)))
       = JString ''x''"
proof -
  let ?p = "demo_partial"
  have t: "read_text (setting_path demo_setting) demo_proc = Inr ''settings''"
    by (simp add: read_text_def demo_setting_def BuildSetting_init_def os_path_join_def
        FILE_NAME_def demo_defs os_defs)
  have d: "json_load ?p ''settings'' = Some (JObject [(''ProjectHome'', JString ''x'')])"
    by (simp add: demo_partial_def demo_platform_def demo_partial_doc_def)
  have m: "map_of [(''ProjectHome'', JString ''x'')] PROJECT_HOME = None
           \<or> map_of [(''ProjectHome'', JString ''x'')] BUILD_DIR = None"
    by (simp add: BUILD_DIR_def)
  have i: "BuildSetting_import ?p demo_setting demo_proc
             = Inr (JObject [(''ProjectHome'', JString ''x'')])"
    by (simp add: BuildSetting_import_def t d)
  have k: "fst (BuildSetting_Load ?p demo_setting demo_proc) = Inl (KeyError ''BuildDirectory'')"
    using read_text_exists [OF t]
    by (simp add: BuildSetting_Load_def i PROJECT_HOME_def BUILD_DIR_def Let_def)
  from Load_missing_key [OF t d m] t d k show ?thesis
    by (simp add: PROJECT_HOME_def BUILD_DIR_def)
qed

lemma FILE_NAME_plain: "CHR ''/'' \<notin> set FILE_NAME" "FILE_NAME \<noteq> []" "last FILE_NAME \<noteq> CHR ''/''"
  "FILE_NAME \<noteq> ''.''" "FILE_NAME \<noteq> ''..''" "hd FILE_NAME \<noteq> CHR ''/''"
  by (simp_all add: FILE_NAME_def)

lemma components_setting_path:
  "components (setting_path (BuildSetting_init d)) = components d @ [FILE_NAME]"
proof (cases "d = [] \<or> last d = CHR ''/''")
  case False
  then show ?thesis
    using components_slash_name [of FILE_NAME d]
    by (simp add: BuildSetting_init_def os_path_join_def FILE_NAME_plain)
next
  case True
  show ?thesis
  proof (cases "d = []")
    case True
    then show ?thesis
      by (simp add: BuildSetting_init_def os_path_join_def FILE_NAME_plain components_def split_on_no_sep)
  next
    case False
    with True obtain a where d: "d = a @ ''/''"
      by (metis append_butlast_last_id)
    show ?thesis
      using components_slash_name [of FILE_NAME a]
      by (simp add: BuildSetting_init_def os_path_join_def FILE_NAME_plain d
          components_trailing_slash)
  qed
qed

lemma start_dir_setting_path:
  "start_dir w (setting_path (BuildSetting_init d)) = start_dir w (if d = [] then ''.'' else d)"
  by (cases d) (auto simp: BuildSetting_init_def os_path_join_def start_dir_def FILE_NAME_plain)

lemma setting_path_plain:
  "setting_path (BuildSetting_init d) \<noteq> []" "last (setting_path (BuildSetting_init d)) \<noteq> CHR ''/''"
  by (auto simp: BuildSetting_init_def os_path_join_def FILE_NAME_plain)

lemma isdir_resolve_setting_path:
  assumes "os_path_isdir w (if d = [] then ''.'' else d)"
  shows "\<exists>q. resolve w (setting_path (BuildSetting_init d)) = Some (q @ [FILE_NAME])
             \<and> fs w q = Some Dir"
proof -
  let ?d = "if d = [] then ''.'' else d"
  from assms obtain q where st: "os_stat w ?d = Some (q, Dir)"
    by (auto simp: os_path_isdir_iff)
  hence wk: "walk (fs w) (start_dir w ?d) (components ?d) = Some q" and dir: "fs w q = Some Dir"
    by (auto simp: os_stat_def resolve_def split: option.splits if_splits)
  have "walk (fs w) (start_dir w ?d) (components d) = Some q"
  proof (cases "d = []")
    case True
    with wk show ?thesis
      by (auto simp: components_def split: if_splits)
  next
    case False
    with wk show ?thesis by simp
  qed
  hence "walk (fs w) (start_dir w ?d) (components d @ [FILE_NAME]) = Some (q @ [FILE_NAME])"
    using dir by (simp add: walk_append FILE_NAME_plain)
  thus ?thesis
    using dir
    by (auto simp: resolve_def setting_path_plain components_setting_path start_dir_setting_path)
qed

lemma Create_existing: "os_path_exists w (setting_path s) \<Longrightarrow> BuildSetting_Create p s w = (Inr (), w)"
  by (simp add: BuildSetting_Create_def)

lemma Create_idempotent: "BuildSetting_Create p s (snd (BuildSetting_Create p s w)) = BuildSetting_Create p s w"
proof (cases "os_path_exists w (setting_path s)")
  case True
  then show ?thesis by (simp add: BuildSetting_Create_def)
next
  case False
  let ?t = "json_dump p TEMPLATE"
  show ?thesis
  proof (cases "write_text (setting_path s) ?t w")
    case (Pair r w')
    show ?thesis
    proof (cases r)
      case (Inl e)
      with Pair have "w' = w"
        by (auto simp: write_text_def split: option.splits if_splits)
      with Pair Inl False show ?thesis
        by (simp add: BuildSetting_Create_def)
    next
      case (Inr u)
      with Pair have "write_text (setting_path s) ?t w = (Inr (), w')"
        by simp
      from write_text_then_exists [OF this] have "os_path_exists w' (setting_path s)"
        by (auto simp: os_path_exists_def)
      with Pair Inr False show ?thesis
        by (simp add: BuildSetting_Create_def)
    qed
  qed
qed

lemma Create_absent_writes:
  assumes absent: "\<not> os_path_exists w (setting_path (BuildSetting_init d))"
      and dir: "os_path_isdir w (if d = [] then ''.'' else d)"
  shows "fst (BuildSetting_Create p (BuildSetting_init d) w) = Inr ()
         \<and> read_text (setting_path (BuildSetting_init d))
              (snd (BuildSetting_Create p (BuildSetting_init d) w)) = Inr (json_dump p TEMPLATE)"
proof -
  let ?s = "setting_path (BuildSetting_init d)"
  let ?t = "json_dump p TEMPLATE"
  from isdir_resolve_setting_path [OF dir] obtain q
    where r: "resolve w ?s = Some (q @ [FILE_NAME])" and qd: "fs w q = Some Dir"
    by blast
  from absent r have none: "fs w (q @ [FILE_NAME]) = None"
    by (auto simp: os_path_exists_def os_stat_def setting_path_plain split: option.splits)
  from r qd none have wr: "write_text ?s ?t w = (Inr (), w\<lparr>fs := (fs w)(q @ [FILE_NAME] \<mapsto> File ?t)\<rparr>)"
    by (simp add: write_text_def setting_path_plain)
  from write_text_then_exists [OF wr] r
  have "os_stat (w\<lparr>fs := (fs w)(q @ [FILE_NAME] \<mapsto> File ?t)\<rparr>) ?s = Some (q @ [FILE_NAME], File ?t)"
    by simp
  with wr absent show ?thesis
    by (simp add: BuildSetting_Create_def read_text_def)
qed

text \<open>
  Claim C4. \<^verbatim>\<open>Create\<close> does nothing when something exists at the settings path;
  calling it again on the state it left gives the same result and the same state; and
  when nothing exists at the settings path and the directory of the script exists, it
  returns and the settings file holds the dump of the template
  \<^verbatim>\<open>{"ProjectHome": ".", "BuildDirectory": "build"}\<close>.
\<close>

theorem Create_idempotent_nondestructive:
  "(os_path_exists w (setting_path s) \<longrightarrow> BuildSetting_Create p s w = (Inr (), w))
   \<and> BuildSetting_Create p s (snd (BuildSetting_Create p s w)) = BuildSetting_Create p s w
   \<and> (\<not> os_path_exists w (setting_path (BuildSetting_init d))
        \<and> os_path_isdir w (if d = [] then ''.'' else d)
      \<longrightarrow> fst (BuildSetting_Create p (BuildSetting_init d) w) = Inr ()
          \<and> read_text (setting_path (BuildSetting_init d))
               (snd (BuildSetting_Create p (BuildSetting_init d) w)) = Inr (json_dump p TEMPLATE))
   \<and> TEMPLATE = JObject [(''ProjectHome'', JString ''.''), (''BuildDirectory'', JString ''build'')]"
proof -
  have "TEMPLATE = JObject [(''ProjectHome'', JString ''.''), (''BuildDirectory'', JString ''build'')]"
    by (simp add: TEMPLATE_def PROJECT_HOME_def BUILD_DIR_def)
  with Create_existing [of w s p] Create_idempotent [of p s w] Create_absent_writes [of w d p]
  show ?thesis
    by blast
qed

theorem Create_idempotent_nondestructive_witness:
  "os_path_exists demo_proc (setting_path demo_setting)
   \<and> BuildSetting_Create demo_ok demo_setting demo_proc = (Inr (), demo_proc)
   \<and> \<not> os_path_exists demo_proc (setting_path (BuildSetting_init ''/w/proj''))
   \<and> os_path_isdir demo_proc ''/w/proj''
   \<and> fst (BuildSetting_Create demo_ok (BuildSetting_init ''/w/proj'') demo_proc) = Inr ()
   \<and> read_text ''/w/proj/buildsettings.json''
        (snd (BuildSetting_Create demo_ok (BuildSetting_init ''/w/proj'') demo_proc))
       = Inr ''template''"
proof -
  have p: "setting_path (BuildSetting_init ''/w/proj'') = ''/w/proj/buildsettings.json''"
    by (simp add: BuildSetting_init_def os_path_join_def FILE_NAME_def)
  have j: "json_dump demo_ok TEMPLATE = ''template''"
    by (simp add: demo_ok_def demo_platform_def)
  from Create_idempotent_nondestructive
         [of demo_proc demo_setting "demo_ok" "''/w/proj''"]
       demo_setting_exists demo_proj_no_setting demo_proj_isdir
  show ?thesis
    by (simp add: p j)
qed

section \<open>ProjectBuilder.Run\<close>

lemma configure_and_build_order:
  assumes cf: "doConfiguration (controls self)" and bd: "doBuild (controls self)"
      and run: "configure_and_build p self cm w = (r, self', w')"
      and cfg: "Cmake_Configure p cm w = (r1, w1)"
  shows "(r1 \<noteq> Inr True \<longrightarrow> w' = w1 \<and> self' = self
            \<and> r = (case r1 of Inl e \<Rightarrow> Inl e | Inr b \<Rightarrow> Inr ()))
         \<and> (r1 = Inr True \<longrightarrow>
              spawned w1 = spawned w @ [configure_command cm]
              \<and> (spawned w' = spawned w1
                  \<or> (\<exists>bc. spawned w' = spawned w1 @ [bc] \<and> take 2 bc = [CMAKE, ''--build''])))"
proof (cases r1)
  case (Inl e)
  with cf run cfg show ?thesis
    by (simp add: configure_and_build_def)
next
  case (Inr b)
  show ?thesis
  proof (cases b)
    case False
    with Inr cf run cfg show ?thesis
      by (simp add: configure_and_build_def)
  next
    case True
    from Configure_effect(4) [OF cfg] Inr
    have s1: "spawned w1 = spawned w @ [configure_command cm]"
      by auto
    show ?thesis
    proof (cases "arguments self")
      case None
      with True Inr cf bd run cfg s1 show ?thesis
        by (simp add: configure_and_build_def)
    next
      case (Some a)
      let ?b = "Cmake_Build p cm (arg_target a) (Some (arg_type a)) (arg_verbose a)
                  (Some (split_on (CHR '','') (arg_cmake_args a))) w1"
      obtain r2 w2 where b2: "?b = (r2, w2)"
        by (cases ?b)
      from Build_effect(4) [OF b2]
      have "spawned w2 = spawned w1
            \<or> (\<exists>bc. spawned w2 = spawned w1 @ [bc] \<and> take 2 bc = [CMAKE, ''--build''])"
        by (auto simp: build_command_head)
      moreover from True Inr cf bd run cfg Some b2 have "w' = w2"
        by (auto simp: configure_and_build_def split: sum.splits)
      ultimately show ?thesis
        using True Inr s1 by simp
    qed
  qed
qed

text \<open>
  Claim C5. In a run where both configure and build are requested, the child processes
  of the run are: none; or the configure command alone, when \<^verbatim>\<open>Configure\<close> did not
  return \<open>True\<close>, and then the run ends in the state \<^verbatim>\<open>Configure\<close> left; or the
  configure command, after which \<^verbatim>\<open>Configure\<close> returned \<open>True\<close>, followed by at most
  one more command, a build command. And whenever \<^verbatim>\<open>Run\<close> calls \<^verbatim>\<open>Configure\<close> on
  the object it constructed and \<^verbatim>\<open>Configure\<close> returns \<open>False\<close>, \<^verbatim>\<open>Run\<close> returns in
  the state \<^verbatim>\<open>Configure\<close> left with the configure command as its only child:
  \<^verbatim>\<open>Build\<close> is not invoked.
\<close>

theorem Run_configure_before_build:
  assumes cf: "doConfiguration (controls self)" and bd: "doBuild (controls self)"
      and run: "ProjectBuilder_Run p self w = (r, self', w')"
  shows "(spawned w' = spawned w
          \<or> (\<exists>cm r1. Cmake_Configure p cm w = (r1, w') \<and> r1 \<noteq> Inr True
                \<and> spawned w' = spawned w @ [configure_command cm])
          \<or> (\<exists>cm w1. Cmake_Configure p cm w = (Inr True, w1)
                \<and> spawned w1 = spawned w @ [configure_command cm]
                \<and> (spawned w' = spawned w1
                    \<or> (\<exists>bc. spawned w' = spawned w1 @ [bc] \<and> take 2 bc = [CMAKE, ''--build'']))))
         \<and> (\<forall>cm self1 w1.
               \<not> createSetting (controls self) \<and> \<not> doCleanup (controls self)
               \<and> load_and_construct p self w = (Inr cm, self1)
               \<and> Cmake_Configure p cm w = (Inr False, w1)
               \<longrightarrow> r = Inr () \<and> w' = w1 \<and> spawned w' = spawned w @ [configure_command cm])"
proof -
  let ?A = "spawned w' = spawned w
          \<or> (\<exists>cm r1. Cmake_Configure p cm w = (r1, w') \<and> r1 \<noteq> Inr True
                \<and> spawned w' = spawned w @ [configure_command cm])
          \<or> (\<exists>cm w1. Cmake_Configure p cm w = (Inr True, w1)
                \<and> spawned w1 = spawned w @ [configure_command cm]
                \<and> (spawned w' = spawned w1
                    \<or> (\<exists>bc. spawned w' = spawned w1 @ [bc] \<and> take 2 bc = [CMAKE, ''--build''])))"
  have A: ?A
  proof (cases "createSetting (controls self)")
    case True
    obtain r0 w0 where c: "BuildSetting_Create p (setting self) w = (r0, w0)"
      by (cases "BuildSetting_Create p (setting self) w")
    with True run have "w' = w0"
      by (auto simp: ProjectBuilder_Run_def split: sum.splits)
    with Create_effect(1) [OF c] show ?thesis
      by simp
  next
    case nc: False
    obtain r0 self1 where lc: "load_and_construct p self w = (r0, self1)"
      by (cases "load_and_construct p self w")
    note fr = load_and_construct_frame [OF lc]
    show ?thesis
    proof (cases r0)
      case (Inl e)
      with nc lc run show ?thesis
        by (simp add: ProjectBuilder_Run_def)
    next
      case (Inr cm)
      show ?thesis
      proof (cases "doCleanup (controls self)")
        case True
        obtain r2 w2 where c: "Cmake_Cleanup cm w = (r2, w2)"
          by (cases "Cmake_Cleanup cm w")
        with True nc lc Inr run fr have "w' = w2"
          by (auto simp: ProjectBuilder_Run_def split: sum.splits)
        with Cleanup_effect(1) [OF c] show ?thesis
          by simp
      next
        case False
        with nc lc Inr run fr have cb: "configure_and_build p self1 cm w = (r, self', w')"
          by (simp add: ProjectBuilder_Run_def)
        obtain r1 w1 where cfg: "Cmake_Configure p cm w = (r1, w1)"
          by (cases "Cmake_Configure p cm w")
        from cf bd fr have "doConfiguration (controls self1)" "doBuild (controls self1)"
          by simp_all
        note ord = configure_and_build_order [OF this cb cfg]
        show ?thesis
        proof (cases "r1 = Inr True")
          case True
          with ord cfg
          have "Cmake_Configure p cm w = (Inr True, w1)
                \<and> spawned w1 = spawned w @ [configure_command cm]
                \<and> (spawned w' = spawned w1
                    \<or> (\<exists>bc. spawned w' = spawned w1 @ [bc] \<and> take 2 bc = [CMAKE, ''--build'']))"
            by blast
          thus ?thesis
            by blast
        next
          case False
          with ord have "w' = w1"
            by simp
          with cfg False Configure_effect(4) [OF cfg] show ?thesis
            by blast
        qed
      qed
    qed
  qed
  have B: "\<forall>cm self1 w1.
               \<not> createSetting (controls self) \<and> \<not> doCleanup (controls self)
               \<and> load_and_construct p self w = (Inr cm, self1)
               \<and> Cmake_Configure p cm w = (Inr False, w1)
               \<longrightarrow> r = Inr () \<and> w' = w1 \<and> spawned w' = spawned w @ [configure_command cm]"
  proof (intro allI impI, elim conjE)
    fix cm self1 w1
    assume nc: "\<not> createSetting (controls self)" and ncl: "\<not> doCleanup (controls self)"
      and lc: "load_and_construct p self w = (Inr cm, self1)"
      and cfg: "Cmake_Configure p cm w = (Inr False, w1)"
    note fr = load_and_construct_frame [OF lc]
    from nc ncl lc run fr have cb: "configure_and_build p self1 cm w = (r, self', w')"
      by (simp add: ProjectBuilder_Run_def)
    from cf bd fr have "doConfiguration (controls self1)" "doBuild (controls self1)"
      by simp_all
    from configure_and_build_order [OF this cb cfg] Configure_effect(4) [OF cfg]
    show "r = Inr () \<and> w' = w1 \<and> spawned w' = spawned w @ [configure_command cm]"
      by auto
  qed
  from A B show ?thesis
    by blast
qed

theorem Run_configure_before_build_witness:
  "doConfiguration (controls demo_app) \<and> doBuild (controls demo_app)
   \<and> \<not> createSetting (controls demo_app) \<and> \<not> doCleanup (controls demo_app)
   \<and> fst (load_and_construct demo_configure_fails demo_app demo_proc) = Inr demo_cmake
   \<and> fst (Cmake_Configure demo_configure_fails demo_cmake demo_proc) = Inr False
   \<and> fst (ProjectBuilder_Run demo_configure_fails demo_app demo_proc) = Inr ()
   \<and> spawned (snd (snd (ProjectBuilder_Run demo_configure_fails demo_app demo_proc)))
       = [[''cmake'', ''-S'', ''.'', ''-B'', ''./build'']]
   \<and> spawned (snd (snd (ProjectBuilder_Run demo_ok demo_app demo_proc)))
       = [[''cmake'', ''-S'', ''.'', ''-B'', ''./build''],
          [''cmake'', ''--build'', ''./build'', ''--target'', ''all'']]"
proof -
  let ?p = demo_configure_fails
  have h: "doConfiguration (controls demo_app)" "doBuild (controls demo_app)"
    "\<not> createSetting (controls demo_app)" "\<not> doCleanup (controls demo_app)"
    by (simp_all add: demo_app_fields Controls_init_def)
  have lc: "load_and_construct ?p demo_app demo_proc = (Inr demo_cmake, demo_loaded)"
    by (simp add: demo_load_and_construct_full demo_json_load)
  obtain w1 where c: "Cmake_Configure ?p demo_cmake demo_proc = (Inr False, w1)"
    by (simp add: demo_configure_fails_def demo_Configure CMAKE_def)
  obtain r s' w' where run: "ProjectBuilder_Run ?p demo_app demo_proc = (r, s', w')"
    by (cases "ProjectBuilder_Run ?p demo_app demo_proc")
  from Run_configure_before_build [OF h(1) h(2) run] h lc c
  have "r = Inr () \<and> w' = w1 \<and> spawned w' = spawned demo_proc @ [configure_command demo_cmake]"
    by blast
  with run h lc c show ?thesis
    by (auto simp: demo_proc_fields demo_configure_command demo_Run_ok)
qed

text \<open>
  Claim C6 says that whenever neither \<^verbatim>\<open>-c\<close> nor \<^verbatim>\<open>-b\<close> is given, both controls
  are true and so configure and build are both attempted. The controls are true, but
  with \<^verbatim>\<open>--clean\<close> the run is \<^verbatim>\<open>Cleanup\<close> and nothing else: it ends in the state
  \<^verbatim>\<open>Cleanup\<close> left, with the clean-up message as its response, and no \<^verbatim>\<open>cmake\<close> was
  started (on the same machine \<^verbatim>\<open>Configure\<close> does start one).
\<close>

theorem clean_run_attempts_neither:
  "\<not> arg_configure demo_clean_args \<and> \<not> arg_build demo_clean_args
   \<and> ProjectBuilder_Setup demo_clean_args (ProjectBuilder_init demo_file) demo_proc
       = (demo_clean_app, demo_proc)
   \<and> doConfiguration (controls demo_clean_app) \<and> doBuild (controls demo_clean_app)
   \<and> fst (ProjectBuilder_Run demo_ok demo_clean_app demo_proc) = Inr ()
   \<and> snd (snd (ProjectBuilder_Run demo_ok demo_clean_app demo_proc))
       = snd (Cmake_Cleanup demo_cmake demo_proc)
   \<and> response (fst (snd (ProjectBuilder_Run demo_ok demo_clean_app demo_proc)))
       = cleaned_response
   \<and> spawned (snd (snd (ProjectBuilder_Run demo_ok demo_clean_app demo_proc))) = []
   \<and> spawned (snd (Cmake_Configure demo_ok demo_cmake demo_proc))
       = [[''cmake'', ''-S'', ''.'', ''-B'', ''./build'']]"
proof -
  have a: "\<not> arg_configure demo_clean_args" "\<not> arg_build demo_clean_args"
    by (simp_all add: demo_clean_args_def demo_args_def)
  have c: "doConfiguration (controls demo_clean_app)" "doBuild (controls demo_clean_app)"
    by (simp_all add: demo_clean_app_fields Controls_init_def)
  obtain r w1 where cl: "Cmake_Cleanup demo_cmake demo_proc = (r, w1)"
    by (cases "Cmake_Cleanup demo_cmake demo_proc")
  from Cleanup_effect(1) [OF cl] cl
  have sp: "spawned (snd (snd (ProjectBuilder_Run demo_ok demo_clean_app demo_proc))) = []"
    by (simp add: demo_Run_clean demo_proc_fields)
  have cf: "spawned (snd (Cmake_Configure demo_ok demo_cmake demo_proc))
              = [[''cmake'', ''-S'', ''.'', ''-B'', ''./build'']]"
    by (simp add: demo_Configure_ok)
  from a c sp cf demo_Run_clean demo_Setups(1) show ?thesis
    by blast
qed

text \<open>
  Claim C6, amended. Whenever neither \<^verbatim>\<open>-c\<close> nor \<^verbatim>\<open>-b\<close> is given, \<^verbatim>\<open>Setup\<close>
  leaves both \<open>doConfiguration\<close> and \<open>doBuild\<close> true. If moreover neither
  \<^verbatim>\<open>--create-settings\<close> nor \<^verbatim>\<open>--clean\<close> is given and the settings load and the
  \<^verbatim>\<open>Cmake\<close> object is constructed, \<^verbatim>\<open>Run\<close> is \<^verbatim>\<open>Configure\<close> first and then, in the
  state \<^verbatim>\<open>Configure\<close> left and only if it returned \<open>True\<close>, \<^verbatim>\<open>Build\<close> with the
  target, type, verbosity and extra arguments of the command line.
\<close>

theorem Setup_resolves_then_Run_configures_and_builds:
  assumes nf: "\<not> arg_configure a" "\<not> arg_build a"
      and su: "ProjectBuilder_Setup a self0 w0 = (self, w)"
  shows "doConfiguration (controls self) \<and> doBuild (controls self)
         \<and> (\<forall>cm self1.
               \<not> arg_create_settings a \<and> \<not> arg_clean a
               \<and> load_and_construct p self w = (Inr cm, self1)
               \<longrightarrow> ProjectBuilder_Run p self w
                     = (case Cmake_Configure p cm w of
                          (Inl e, w1) \<Rightarrow> (Inl e, self1, w1)
                        | (Inr ok, w1) \<Rightarrow>
                            if ok
                            then (case Cmake_Build p cm (arg_target a) (Some (arg_type a))
                                         (arg_verbose a)
                                         (Some (split_on (CHR '','') (arg_cmake_args a))) w1 of
                                    (Inl e, w2) \<Rightarrow> (Inl e, self1, w2)
                                  | (Inr built, w2) \<Rightarrow> (Inr (), self1, w2))
                            else (Inr (), self1, w1)))"
proof -
  from nf su have c: "doConfiguration (controls self)" "doBuild (controls self)"
    and ar: "arguments self = Some a"
    by (auto simp: ProjectBuilder_Setup_def ProjectBuilder_verifyControls_def Let_def)
  note se = Setup_effect [OF su]
  have "ProjectBuilder_Run p self w
          = (case Cmake_Configure p cm w of
               (Inl e, w1) \<Rightarrow> (Inl e, self1, w1)
             | (Inr ok, w1) \<Rightarrow>
                 if ok
                 then (case Cmake_Build p cm (arg_target a) (Some (arg_type a))
                              (arg_verbose a)
                              (Some (split_on (CHR '','') (arg_cmake_args a))) w1 of
                         (Inl e, w2) \<Rightarrow> (Inl e, self1, w2)
                       | (Inr built, w2) \<Rightarrow> (Inr (), self1, w2))
                 else (Inr (), self1, w1))"
    if h: "\<not> arg_create_settings a \<and> \<not> arg_clean a
           \<and> load_and_construct p self w = (Inr cm, self1)" for cm self1
  proof -
    from h have lc: "load_and_construct p self w = (Inr cm, self1)"
      by simp
    note fr = load_and_construct_frame [OF lc]
    from h se lc fr c ar show ?thesis
      by (simp add: ProjectBuilder_Run_def configure_and_build_def
          split: prod.splits sum.splits)
  qed
  with c show ?thesis
    by blast
qed

theorem Setup_resolves_then_Run_configures_and_builds_witness:
  "\<not> arg_configure demo_args \<and> \<not> arg_build demo_args
   \<and> \<not> arg_create_settings demo_args \<and> \<not> arg_clean demo_args
   \<and> ProjectBuilder_Setup demo_args (ProjectBuilder_init demo_file) demo_proc = (demo_app, demo_proc)
   \<and> doConfiguration (controls demo_app) \<and> doBuild (controls demo_app)
   \<and> load_and_construct demo_ok demo_app demo_proc = (Inr demo_cmake, demo_loaded)
   \<and> fst (Cmake_Configure demo_ok demo_cmake demo_proc) = Inr True
   \<and> spawned (snd (snd (ProjectBuilder_Run demo_ok demo_app demo_proc)))
       = [[''cmake'', ''-S'', ''.'', ''-B'', ''./build''],
          [''cmake'', ''--build'', ''./build'', ''--target'', ''all'']]"
proof -
  have a: "\<not> arg_configure demo_args" "\<not> arg_build demo_args"
    "\<not> arg_create_settings demo_args" "\<not> arg_clean demo_args"
    by (simp_all add: demo_args_def)
  have lc: "load_and_construct demo_ok demo_app demo_proc = (Inr demo_cmake, demo_loaded)"
    by (simp add: demo_load_and_construct_full demo_json_load)
  note th = Setup_resolves_then_Run_configures_and_builds [OF a(1) a(2) demo_Setup, of demo_ok]
  from th have c: "doConfiguration (controls demo_app)" "doBuild (controls demo_app)"
    by blast+
  from th a lc
  have "ProjectBuilder_Run demo_ok demo_app demo_proc
          = (case Cmake_Configure demo_ok demo_cmake demo_proc of
               (Inl e, w1) \<Rightarrow> (Inl e, demo_loaded, w1)
             | (Inr ok, w1) \<Rightarrow>
                 if ok
                 then (case Cmake_Build demo_ok demo_cmake (arg_target demo_args)
                              (Some (arg_type demo_args)) (arg_verbose demo_args)
                              (Some (split_on (CHR '','') (arg_cmake_args demo_args))) w1 of
                         (Inl e, w2) \<Rightarrow> (Inl e, demo_loaded, w2)
                       | (Inr built, w2) \<Rightarrow> (Inr (), demo_loaded, w2))
                 else (Inr (), demo_loaded, w1))"
    by blast
  hence sp: "spawned (snd (snd (ProjectBuilder_Run demo_ok demo_app demo_proc)))
       = [[''cmake'', ''-S'', ''.'', ''-B'', ''./build''],
          [''cmake'', ''--build'', ''./build'', ''--target'', ''all'']]"
    by (simp add: demo_Configure_ok demo_args_def demo_Build_after_Configure)
  have cf: "fst (Cmake_Configure demo_ok demo_cmake demo_proc) = Inr True"
    by (simp add: demo_Configure_ok)
  from a c lc sp cf demo_Setup show ?thesis
    by blast
qed

text \<open>
  Claim C10 says that a run with \<^verbatim>\<open>--clean\<close> raises when the settings file is
  absent. With \<^verbatim>\<open>--create-settings\<close> also given it does not: the create-settings
  branch comes first, writes the settings file and returns.
\<close>

theorem clean_with_create_settings_returns:
  "arg_clean demo_clean_create_args
   \<and> ProjectBuilder_Setup demo_clean_create_args (ProjectBuilder_init demo_other_file) demo_proc
       = (demo_clean_create_app, demo_proc)
   \<and> doCleanup (controls demo_clean_create_app)
   \<and> \<not> os_path_exists demo_proc (setting_path (setting demo_clean_create_app))
   \<and> fst (ProjectBuilder_Run demo_ok demo_clean_create_app demo_proc) = Inr ()
   \<and> response (fst (snd (ProjectBuilder_Run demo_ok demo_clean_create_app demo_proc)))
       = created_response"
proof -
  have a: "arg_clean demo_clean_create_args"
    by (simp add: demo_clean_create_args_def demo_args_def)
  have c: "doCleanup (controls demo_clean_create_app)"
    by (simp add: demo_clean_create_app_fields Controls_init_def)
  have ab: "\<not> os_path_exists demo_proc (setting_path (setting demo_clean_create_app))"
    by (simp add: demo_clean_create_app_fields demo_proj_no_setting)
  from Create_absent_writes [of demo_proc "''/w/proj''" demo_ok] demo_proj_no_setting demo_proj_isdir
  have cr: "fst (BuildSetting_Create demo_ok (BuildSetting_init ''/w/proj'') demo_proc) = Inr ()"
    by simp
  have r: "fst (ProjectBuilder_Run demo_ok demo_clean_create_app demo_proc) = Inr ()"
    "response (fst (snd (ProjectBuilder_Run demo_ok demo_clean_create_app demo_proc)))
       = created_response"
    using cr
    by (cases "BuildSetting_Create demo_ok (BuildSetting_init ''/w/proj'') demo_proc";
        simp add: ProjectBuilder_Run_def demo_clean_create_app_fields Controls_init_def)+
  from a c ab r demo_Setups(3) show ?thesis
    by blast
qed

text \<open>
  Claim C10, amended. In a run with \<^verbatim>\<open>--clean\<close> and without
  \<^verbatim>\<open>--create-settings\<close>: if the settings file is absent the run raises
  \<open>RuntimeError\<close> and the process state is untouched; if the settings load but the
  project home or the parent of the build directory does not exist, it raises
  \<open>FileNotFoundError\<close> and the process state is untouched; any other failure to load
  or to construct the \<^verbatim>\<open>Cmake\<close> object is raised with the state untouched; and
  when the object is constructed, the settings have loaded, both existence checks have
  passed, and the result and final state of the run are those of \<^verbatim>\<open>Cleanup\<close>.
\<close>

theorem Run_clean_only_after_checks:
  assumes cl: "doCleanup (controls self)" and nc: "\<not> createSetting (controls self)"
  shows "(\<not> os_path_exists w (setting_path (setting self)) \<longrightarrow>
            ProjectBuilder_Run p self w
              = (Inl (RuntimeError (FILE_NAME @ '' does not exist.'')), self, w))
         \<and> (\<forall>st home dir.
               BuildSetting_Load p (setting self) w = (Inr (), st)
               \<and> projectHome (setting_values st) = JString home
               \<and> buildDirectory (setting_values st) = JString dir
               \<and> (\<not> os_path_exists w home
                    \<or> \<not> os_path_exists w (os_path_dirname (os_path_join home dir)))
               \<longrightarrow> (\<exists>m. ProjectBuilder_Run p self w
                          = (Inl (FileNotFoundError m), self\<lparr>setting := st\<rparr>, w)))
         \<and> (\<forall>e self1. load_and_construct p self w = (Inl e, self1)
               \<longrightarrow> ProjectBuilder_Run p self w = (Inl e, self1, w))
         \<and> (\<forall>cm self1. load_and_construct p self w = (Inr cm, self1)
               \<longrightarrow> (\<exists>st. BuildSetting_Load p (setting self) w = (Inr (), st))
                   \<and> os_path_exists w (cmake_projectHome cm)
                   \<and> os_path_exists w (os_path_dirname (cmake_buildDirectory cm))
                   \<and> fst (ProjectBuilder_Run p self w) = fst (Cmake_Cleanup cm w)
                   \<and> snd (snd (ProjectBuilder_Run p self w)) = snd (Cmake_Cleanup cm w))"
proof (intro conjI allI impI)
  assume "\<not> os_path_exists w (setting_path (setting self))"
  with nc show "ProjectBuilder_Run p self w
                  = (Inl (RuntimeError (FILE_NAME @ '' does not exist.'')), self, w)"
    by (simp add: ProjectBuilder_Run_def load_and_construct_def Load_absent)
next
  fix st home dir
  assume "BuildSetting_Load p (setting self) w = (Inr (), st)
          \<and> projectHome (setting_values st) = JString home
          \<and> buildDirectory (setting_values st) = JString dir
          \<and> (\<not> os_path_exists w home
               \<or> \<not> os_path_exists w (os_path_dirname (os_path_join home dir)))"
  with nc show "\<exists>m. ProjectBuilder_Run p self w
                      = (Inl (FileNotFoundError m), self\<lparr>setting := st\<rparr>, w)"
    by (auto simp: ProjectBuilder_Run_def load_and_construct_def Cmake_init_def)
next
  fix e self1
  assume "load_and_construct p self w = (Inl e, self1)"
  with nc show "ProjectBuilder_Run p self w = (Inl e, self1, w)"
    by (simp add: ProjectBuilder_Run_def)
next
  fix cm self1
  assume lc: "load_and_construct p self w = (Inr cm, self1)"
  from load_and_construct_Inr [OF lc]
  show "\<exists>st. BuildSetting_Load p (setting self) w = (Inr (), st)"
    and "os_path_exists w (cmake_projectHome cm)"
    and "os_path_exists w (os_path_dirname (cmake_buildDirectory cm))"
    by blast+
  from load_and_construct_frame [OF lc] cl have "doCleanup (controls self1)"
    by simp
  with nc lc
  show "fst (ProjectBuilder_Run p self w) = fst (Cmake_Cleanup cm w)"
    and "snd (snd (ProjectBuilder_Run p self w)) = snd (Cmake_Cleanup cm w)"
    by (auto simp: ProjectBuilder_Run_def split: prod.splits sum.splits)
qed

theorem Run_clean_only_after_checks_witness:
  "doCleanup (controls demo_absent_app) \<and> \<not> createSetting (controls demo_absent_app)
   \<and> \<not> os_path_exists demo_proc (setting_path (setting demo_absent_app))
   \<and> ProjectBuilder_Run demo_ok demo_absent_app demo_proc
       = (Inl (RuntimeError ''buildsettings.json does not exist.''), demo_absent_app, demo_proc)
   \<and> doCleanup (controls demo_clean_app) \<and> \<not> createSetting (controls demo_clean_app)
   \<and> fst (load_and_construct demo_ok demo_clean_app demo_proc) = Inr demo_cmake
   \<and> os_path_exists demo_proc (cmake_projectHome demo_cmake)
   \<and> os_path_exists demo_proc (os_path_dirname (cmake_buildDirectory demo_cmake))
   \<and> fst (ProjectBuilder_Run demo_ok demo_clean_app demo_proc) = Inr ()
   \<and> fs (snd (snd (ProjectBuilder_Run demo_ok demo_clean_app demo_proc)))
        [''w'', ''proj'', ''build'', ''main.o''] = None"
proof -
  have h1: "doCleanup (controls demo_absent_app)" "\<not> createSetting (controls demo_absent_app)"
    and h2: "doCleanup (controls demo_clean_app)" "\<not> createSetting (controls demo_clean_app)"
    by (simp_all add: demo_absent_app_fields demo_clean_app_fields Controls_init_def)
  have ab: "\<not> os_path_exists demo_proc (setting_path (setting demo_absent_app))"
    by (simp add: demo_absent_app_fields demo_proj_no_setting)
  have l: "fst (load_and_construct demo_ok demo_clean_app demo_proc) = Inr demo_cmake"
    by (simp add: demo_clean_load_and_construct demo_json_load)
  then obtain s1 where lc: "load_and_construct demo_ok demo_clean_app demo_proc = (Inr demo_cmake, s1)"
    by (cases "load_and_construct demo_ok demo_clean_app demo_proc") auto
  from Run_clean_only_after_checks [OF h1, of demo_proc demo_ok] ab
  have r1: "ProjectBuilder_Run demo_ok demo_absent_app demo_proc
          = (Inl (RuntimeError ''buildsettings.json does not exist.''), demo_absent_app, demo_proc)"
    by (simp add: FILE_NAME_def)
  from Run_clean_only_after_checks [OF h2, of demo_proc demo_ok] lc
  have r2: "os_path_exists demo_proc (cmake_projectHome demo_cmake)
        \<and> os_path_exists demo_proc (os_path_dirname (cmake_buildDirectory demo_cmake))
        \<and> fst (ProjectBuilder_Run demo_ok demo_clean_app demo_proc) = fst (Cmake_Cleanup demo_cmake demo_proc)
        \<and> snd (snd (ProjectBuilder_Run demo_ok demo_clean_app demo_proc)) = snd (Cmake_Cleanup demo_cmake demo_proc)"
    by blast
  hence r3: "fst (ProjectBuilder_Run demo_ok demo_clean_app demo_proc) = Inr ()"
    and r4: "fs (snd (snd (ProjectBuilder_Run demo_ok demo_clean_app demo_proc)))
        [''w'', ''proj'', ''build'', ''main.o''] = None"
    by (simp_all add: demo_cleanup_returns demo_cleanup_removes)
  from h1 h2 ab l r1 r2 r3 r4 show ?thesis
    by blast
qed

section \<open>main\<close>

lemma configure_and_build_stdout:
  assumes "configure_and_build p self cm w = (r, self', w')"
  shows "(\<exists>ms. stdout w' = stdout w @ (if debug_enabled w then map (\<lambda>m. ''[DEBUG]'' @ m) ms else []))
         \<and> response self' = response self"
proof -
  obtain r1 w1 where c: "(if doConfiguration (controls self) then Cmake_Configure p cm w
            else (Inr True, w)) = (r1, w1)"
    by (cases "if doConfiguration (controls self) then Cmake_Configure p cm w else (Inr True, w)")
  have s1: "\<exists>ms. stdout w1 = stdout w @ (if debug_enabled w then map (\<lambda>m. ''[DEBUG]'' @ m) ms else [])"
    and d1: "debug_enabled w1 = debug_enabled w"
  proof -
    show "\<exists>ms. stdout w1 = stdout w @ (if debug_enabled w then map (\<lambda>m. ''[DEBUG]'' @ m) ms else [])"
    proof (cases "doConfiguration (controls self)")
      case True
      with c have "Cmake_Configure p cm w = (r1, w1)" by simp
      from Configure_effect(1) [OF this] show ?thesis
        unfolding debug_text_map by blast
    next
      case False
      with c have "w1 = w" by simp
      thus ?thesis by (intro exI [of _ "[]"]) simp
    qed
    show "debug_enabled w1 = debug_enabled w"
    proof (cases "doConfiguration (controls self)")
      case True
      with c have "Cmake_Configure p cm w = (r1, w1)" by simp
      from Configure_effect(2) [OF this] show ?thesis .
    next
      case False
      with c show ?thesis by simp
    qed
  qed
  from s1 obtain ms1 where m1: "stdout w1 = stdout w @ (if debug_enabled w then map (\<lambda>m. ''[DEBUG]'' @ m) ms1 else [])"
    by blast
  show ?thesis
  proof (cases "\<exists>a. r1 = Inr True \<and> doBuild (controls self) \<and> arguments self = Some a")
    case False
    with assms c have "w' = w1 \<and> self' = self"
      by (cases r1; cases "arguments self")
         (auto simp: configure_and_build_def split: if_splits)
    with s1 show ?thesis by simp
  next
    case True
    then obtain a where a: "r1 = Inr True" "doBuild (controls self)" "arguments self = Some a"
      by blast
    let ?b = "Cmake_Build p cm (arg_target a) (Some (arg_type a)) (arg_verbose a)
                  (Some (split_on (CHR '','') (arg_cmake_args a))) w1"
    obtain r2 w2 where b2: "?b = (r2, w2)"
      by (cases ?b)
    from assms c a b2 have e: "w' = w2 \<and> self' = self"
      by (auto simp: configure_and_build_def split: sum.splits)
    from Build_effect(1) [OF b2] d1 obtain m2
      where "stdout w2 = stdout w1 @ (if debug_enabled w then map (\<lambda>m. ''[DEBUG]'' @ m) [m2] else [])"
      unfolding debug_text_map by auto
    with m1 have "stdout w2 = stdout w @ (if debug_enabled w then map (\<lambda>m. ''[DEBUG]'' @ m) (ms1 @ [m2]) else [])"
      by simp
    with e show ?thesis by blast
  qed
qed

lemma Run_stdout:
  assumes "ProjectBuilder_Run p self w = (r, self', w')"
  shows "(\<exists>ms. stdout w' = stdout w @ (if debug_enabled w then map (\<lambda>m. ''[DEBUG]'' @ m) ms else []))
         \<and> (r = Inr () \<longrightarrow>
              response self' = (if createSetting (controls self) then created_response
                                else if doCleanup (controls self) then cleaned_response
                                else response self))"
proof (cases "createSetting (controls self)")
  case True
  obtain r0 w0 where c: "BuildSetting_Create p (setting self) w = (r0, w0)"
    by (cases "BuildSetting_Create p (setting self) w")
  with True assms have "w' = w0 \<and> (r = Inr () \<longrightarrow> response self' = created_response)"
    by (auto simp: ProjectBuilder_Run_def split: sum.splits)
  with Create_effect(2) [OF c] True show ?thesis
    by (intro conjI exI [of _ "[]"]) simp_all
next
  case nc: False
  obtain r0 self1 where lc: "load_and_construct p self w = (r0, self1)"
    by (cases "load_and_construct p self w")
  note fr = load_and_construct_frame [OF lc]
  show ?thesis
  proof (cases r0)
    case (Inl e)
    with nc lc assms have "w' = w \<and> r = Inl e"
      by (simp add: ProjectBuilder_Run_def)
    thus ?thesis
      by (intro conjI exI [of _ "[]"]) simp_all
  next
    case (Inr cm)
    show ?thesis
    proof (cases "doCleanup (controls self)")
      case True
      obtain r2 w2 where c: "Cmake_Cleanup cm w = (r2, w2)"
        by (cases "Cmake_Cleanup cm w")
      with True nc lc Inr assms fr
      have "w' = w2 \<and> (r = Inr () \<longrightarrow> response self' = cleaned_response)"
        by (auto simp: ProjectBuilder_Run_def split: sum.splits)
      with Cleanup_effect(2) [OF c] True nc show ?thesis
        by (intro conjI exI [of _ "[]"]) simp_all
    next
      case False
      with nc lc Inr assms fr have "configure_and_build p self1 cm w = (r, self', w')"
        by (simp add: ProjectBuilder_Run_def)
      from configure_and_build_stdout [OF this] fr False nc show ?thesis
        by simp
    qed
  qed
qed

lemma responses_not_empty: "created_response \<noteq> []" "cleaned_response \<noteq> []"
  by (simp_all add: created_response_def cleaned_response_def)

text \<open>
  Claim C3 says that every run that raises nothing prints exactly one status line.
  A run without options in which configure and build both succeed raises nothing and
  prints nothing.
\<close>

theorem main_prints_nothing_after_build:
  "ProjectBuilder_Setup demo_args (ProjectBuilder_init demo_file) demo_proc = (demo_app, demo_proc)
   \<and> fst (ProjectBuilder_Run demo_ok demo_app demo_proc) = Inr ()
   \<and> spawned (main demo_ok demo_file demo_args demo_proc)
       = [[''cmake'', ''-S'', ''.'', ''-B'', ''./build''],
          [''cmake'', ''--build'', ''./build'', ''--target'', ''all'']]
   \<and> stdout (main demo_ok demo_file demo_args demo_proc) = []"
  by (simp add: main_def demo_Setup demo_Run_ok demo_loaded_fields demo_proc_fields)

text \<open>
  Claim C3, amended. The output of \<^verbatim>\<open>main\<close> is what was there before, then lines
  that start with \<^verbatim>\<open>[DEBUG]\<close> (none unless \<^verbatim>\<open>--debug\<close> is given), then: when
  \<^verbatim>\<open>Run\<close> raised, the single line made of the program name, a colon and the message
  of the exception; when \<^verbatim>\<open>Run\<close> returned, the creation message if
  \<^verbatim>\<open>--create-settings\<close> was given, else the clean-up message if \<^verbatim>\<open>--clean\<close> was
  given, else nothing.
\<close>

theorem main_output:
  assumes su: "ProjectBuilder_Setup a (ProjectBuilder_init file) w = (app, w1)"
      and run: "ProjectBuilder_Run p app w1 = (r, app', w2)"
  shows "\<exists>dbg. stdout (main p file a w)
                 = stdout w @ dbg
                   @ (case r of
                        Inl e \<Rightarrow> [MY_NAME @ '': '' @ str_exn p e]
                      | Inr u \<Rightarrow> if arg_create_settings a then [created_response]
                                 else if arg_clean a then [cleaned_response]
                                 else [])
               \<and> (\<forall>l \<in> set dbg. prefix ''[DEBUG]'' l)
               \<and> (\<not> arg_debug a \<longrightarrow> dbg = [])"
proof -
  note se = Setup_effect [OF su]
  from se(5) obtain ms1
    where m1: "stdout w1 = stdout w @ (if arg_debug a then map (\<lambda>m. ''[DEBUG]'' @ m) ms1 else [])"
    by blast
  from Run_stdout [OF run] se(1) obtain ms2
    where m2: "stdout w2 = stdout w1 @ (if arg_debug a then map (\<lambda>m. ''[DEBUG]'' @ m) ms2 else [])"
      and rs: "r = Inr () \<longrightarrow>
              response app' = (if createSetting (controls app) then created_response
                                else if doCleanup (controls app) then cleaned_response
                                else response app)"
    by auto
  let ?dbg = "if arg_debug a then map (\<lambda>m. ''[DEBUG]'' @ m) (ms1 @ ms2) else []"
  have out: "stdout w2 = stdout w @ ?dbg"
    using m1 m2 by simp
  have "response (ProjectBuilder_init file) = []"
    by (simp add: ProjectBuilder_init_def)
  with se have resp: "response app = []" "createSetting (controls app) = arg_create_settings a"
    "doCleanup (controls app) = arg_clean a"
    by simp_all
  have "stdout (main p file a w)
          = stdout w @ ?dbg
            @ (case r of
                 Inl e \<Rightarrow> [MY_NAME @ '': '' @ str_exn p e]
               | Inr u \<Rightarrow> if arg_create_settings a then [created_response]
                          else if arg_clean a then [cleaned_response]
                          else [])"
  proof (cases r)
    case (Inl e)
    with su run out show ?thesis
      by (simp add: main_def print_def)
  next
    case (Inr u)
    with rs resp have "response app' = (if arg_create_settings a then created_response
                                else if arg_clean a then cleaned_response else [])"
      by simp
    with Inr su run out show ?thesis
      by (simp add: main_def print_def responses_not_empty)
  qed
  moreover have "\<forall>l \<in> set ?dbg. prefix ''[DEBUG]'' l"
    by auto
  moreover have "\<not> arg_debug a \<longrightarrow> ?dbg = []"
    by simp
  ultimately show ?thesis
    by blast
qed

theorem main_output_witness:
  "ProjectBuilder_Setup demo_clean_args (ProjectBuilder_init demo_file) demo_proc
     = (demo_clean_app, demo_proc)
   \<and> fst (ProjectBuilder_Run demo_ok demo_clean_app demo_proc) = Inr ()
   \<and> stdout (main demo_ok demo_file demo_clean_args demo_proc) = [''Cleaned up project repository.'']
   \<and> ProjectBuilder_Setup demo_clean_args (ProjectBuilder_init demo_other_file) demo_proc
     = (demo_absent_app, demo_proc)
   \<and> fst (ProjectBuilder_Run demo_ok demo_absent_app demo_proc)
       = Inl (RuntimeError ''buildsettings.json does not exist.'')
   \<and> stdout (main demo_ok demo_other_file demo_clean_args demo_proc)
       = [''C Project Builder: buildsettings.json does not exist.'']"
proof -
  note r1 = demo_Run_clean(1)
  have r2: "fst (ProjectBuilder_Run demo_ok demo_absent_app demo_proc)
              = Inl (RuntimeError ''buildsettings.json does not exist.'')"
    using demo_proj_no_setting
    by (simp add: ProjectBuilder_Run_def demo_absent_app_fields Controls_init_def
        load_and_construct_def Load_absent FILE_NAME_def)
  obtain s1 w1 where e1: "ProjectBuilder_Run demo_ok demo_clean_app demo_proc = (Inr (), s1, w1)"
    using r1 by (cases "ProjectBuilder_Run demo_ok demo_clean_app demo_proc") auto
  obtain s2 w2 where e2: "ProjectBuilder_Run demo_ok demo_absent_app demo_proc
                            = (Inl (RuntimeError ''buildsettings.json does not exist.''), s2, w2)"
    using r2 by (cases "ProjectBuilder_Run demo_ok demo_absent_app demo_proc") auto
  have a: "arg_clean demo_clean_args" "\<not> arg_create_settings demo_clean_args"
    by (simp_all add: demo_clean_args_def demo_args_def)
  from main_output [OF demo_Setups(1) e1] main_output [OF demo_Setups(2) e2]
  show ?thesis
    by (auto simp: demo_Setups r1 r2 a demo_args_quiet demo_proc_fields cleaned_response_def
        MY_NAME_def)
qed

end
